theory Spec2Isabelle
  imports Main "HOL-Library.Multiset"
begin

section \<open>Data model\<close>

text \<open>
  The store is an SQLite database with two tables, \<open>tasks\<close> and \<open>sync_queue\<close>. A table
  is the list of its rows in insertion (rowid) order. Instants are milliseconds since the
  epoch; the store keeps their ISO-8601 rendering (\<open>toISOString\<close>), whose text order is
  the order of the instants. A column that may hold NULL, and a JavaScript value that may
  be \<open>undefined\<close>, is an \<open>option\<close>.
\<close>

type_synonym timestamp = nat

text \<open>The \<open>Task\<close> interface as the services build and return it.\<close>

record task =
  t_id :: string
  t_title :: "string option"
  t_description :: "string option"
  t_completed :: bool
  t_created_at :: timestamp
  t_updated_at :: timestamp
  t_is_deleted :: bool
  t_sync_status :: string
  t_server_id :: "string option"
  t_last_synced_at :: "timestamp option"

text \<open>A row of \<open>tasks\<close>: the flags \<open>completed\<close> and \<open>is_deleted\<close> are stored integers.\<close>

record task_row =
  r_id :: string
  r_title :: "string option"
  r_description :: "string option"
  r_completed :: int
  r_created_at :: timestamp
  r_updated_at :: timestamp
  r_is_deleted :: int
  r_sync_status :: string
  r_server_id :: "string option"
  r_last_synced_at :: "timestamp option"

text \<open>
  The \<open>data\<close> column of a queue row holds \<open>JSON.stringify\<close> of one of three objects: the
  \<open>Task\<close> of \<open>createTask\<close>, the merged row of \<open>updateTask\<close>, and the object
  \<open>{id, is_deleted: true, updated_at}\<close> of \<open>deleteTask\<close>.
\<close>

datatype payload =
  CreatePayload task
  | UpdatePayload task_row
  | DeletePayload string timestamp

record queue_row =
  q_id :: string
  q_task_id :: string
  q_operation :: string
  q_data :: payload
  q_created_at :: timestamp
  q_retry_count :: nat
  q_error_message :: "string option"

record database =
  tasks :: "task_row list"
  sync_queue :: "queue_row list"

text \<open>
  A \<open>Partial<Task>\<close> as the routes pass it: a key is absent (\<open>None\<close>) or present with a
  value that may itself be \<open>undefined\<close> (\<open>Some None\<close>).
\<close>

record partial_task =
  pt_title :: "string option option"
  pt_description :: "string option option"
  pt_completed :: "bool option option"

section \<open>The SQL statements of the services\<close>

text \<open>\<open>INSERT INTO tasks (...) VALUES (...)\<close>\<close>

definition insert_task :: "task_row \<Rightarrow> database \<Rightarrow> database" where
  "insert_task r db = db\<lparr>tasks := tasks db @ [r]\<rparr>"

text \<open>\<open>INSERT INTO sync_queue (id, task_id, operation, data, created_at, retry_count)\<close>\<close>

definition insert_queue ::
  "string \<Rightarrow> string \<Rightarrow> string \<Rightarrow> payload \<Rightarrow> timestamp \<Rightarrow> nat \<Rightarrow> database \<Rightarrow> database" where
  "insert_queue qid tid operation pdata created retries db =
     db\<lparr>sync_queue := sync_queue db @
       [\<lparr>q_id = qid, q_task_id = tid, q_operation = operation, q_data = pdata,
         q_created_at = created, q_retry_count = retries, q_error_message = None\<rparr>]\<rparr>"

text \<open>\<open>UPDATE tasks SET ... WHERE id = ?\<close>: every row with that id is rewritten.\<close>

definition update_tasks_where_id ::
  "string \<Rightarrow> (task_row \<Rightarrow> task_row) \<Rightarrow> database \<Rightarrow> database" where
  "update_tasks_where_id i f db =
     db\<lparr>tasks := map (\<lambda>r. if r_id r = i then f r else r) (tasks db)\<rparr>"

text \<open>\<open>SELECT * FROM tasks WHERE id = ?\<close> through \<open>db.get\<close>: the first match, if any.\<close>

definition select_task_by_id :: "database \<Rightarrow> string \<Rightarrow> task_row option" where
  "select_task_by_id db i = find (\<lambda>r. r_id r = i) (tasks db)"

text \<open>\<open>SELECT * FROM tasks WHERE id = ? AND is_deleted = 0\<close> through \<open>db.get\<close>.\<close>

definition select_live_task_by_id :: "database \<Rightarrow> string \<Rightarrow> task_row option" where
  "select_live_task_by_id db i = find (\<lambda>r. r_id r = i \<and> r_is_deleted r = 0) (tasks db)"

text \<open>\<open>DELETE FROM sync_queue WHERE task_id = ?\<close>\<close>

definition delete_queue_where_task_id :: "string \<Rightarrow> database \<Rightarrow> database" where
  "delete_queue_where_task_id tid db =
     db\<lparr>sync_queue := filter (\<lambda>q. q_task_id q \<noteq> tid) (sync_queue db)\<rparr>"

text \<open>\<open>UPDATE sync_queue SET retry_count = ?, error_message = ? WHERE id = ?\<close>\<close>

definition update_queue_where_id :: "string \<Rightarrow> nat \<Rightarrow> string \<Rightarrow> database \<Rightarrow> database" where
  "update_queue_where_id qid retries msg db =
     db\<lparr>sync_queue :=
       map (\<lambda>q. if q_id q = qid then q\<lparr>q_retry_count := retries, q_error_message := Some msg\<rparr> else q)
         (sync_queue db)\<rparr>"

section \<open>TaskService\<close>

text \<open>The conversion every read path applies to a row.\<close>

definition row_to_task :: "task_row \<Rightarrow> task" where
  "row_to_task r =
     \<lparr>t_id = r_id r, t_title = r_title r, t_description = r_description r,
      t_completed = (r_completed r = 1), t_created_at = r_created_at r,
      t_updated_at = r_updated_at r, t_is_deleted = (r_is_deleted r = 1),
      t_sync_status = r_sync_status r, t_server_id = r_server_id r,
      t_last_synced_at = r_last_synced_at r\<rparr>"

text \<open>\<open>x ? 1 : 0\<close> on a boolean.\<close>

definition flag :: "bool \<Rightarrow> int" where
  "flag b = (if b then 1 else 0)"

text \<open>
  \<open>createTask\<close>: \<open>new_id\<close> and \<open>queue_id\<close> are the two identifiers \<open>uuidv4()\<close> returns,
  \<open>now\<close> is \<open>new Date()\<close>.
\<close>

definition createTask ::
  "database \<Rightarrow> partial_task \<Rightarrow> string \<Rightarrow> string \<Rightarrow> timestamp \<Rightarrow> task \<times> database" where
  "createTask db taskData new_id queue_id now =
     (let t = \<lparr>t_id = new_id,
                t_title = (case pt_title taskData of None \<Rightarrow> None | Some v \<Rightarrow> v),
                t_description = (case pt_description taskData of None \<Rightarrow> None | Some v \<Rightarrow> v),
                t_completed = False, t_created_at = now, t_updated_at = now,
                t_is_deleted = False, t_sync_status = ''pending'',
                t_server_id = None, t_last_synced_at = None\<rparr>;
          db1 = insert_task
                  \<lparr>r_id = t_id t, r_title = t_title t, r_description = t_description t,
                   r_completed = flag (t_completed t), r_created_at = t_created_at t,
                   r_updated_at = t_updated_at t, r_is_deleted = flag (t_is_deleted t),
                   r_sync_status = t_sync_status t, r_server_id = None,
                   r_last_synced_at = None\<rparr> db;
          db2 = insert_queue queue_id (t_id t) ''create'' (CreatePayload t) (t_created_at t) 0 db1
      in (t, db2))"

text \<open>
  \<open>updateTask\<close>: the merged object is \<open>{...existingTask, ...updates, updated_at, sync_status}\<close>;
  a key present in \<open>updates\<close> overrides the row's column, also with \<open>undefined\<close>. The flag
  \<open>completed\<close> of the merged object is kept as the integer the UPDATE stores
  (\<open>completed ? 1 : 0\<close>: a stored integer is truthy when it is not 0).
\<close>

definition merge_updates :: "task_row \<Rightarrow> partial_task \<Rightarrow> timestamp \<Rightarrow> task_row" where
  "merge_updates existingTask updates now =
     existingTask
       \<lparr>r_title := (case pt_title updates of None \<Rightarrow> r_title existingTask | Some v \<Rightarrow> v),
        r_description :=
          (case pt_description updates of None \<Rightarrow> r_description existingTask | Some v \<Rightarrow> v),
        r_completed :=
          (case pt_completed updates of
             None \<Rightarrow> flag (r_completed existingTask \<noteq> 0)
           | Some None \<Rightarrow> 0
           | Some (Some b) \<Rightarrow> flag b),
        r_updated_at := now,
        r_sync_status := ''pending''\<rparr>"

definition updateTask ::
  "database \<Rightarrow> string \<Rightarrow> partial_task \<Rightarrow> string \<Rightarrow> timestamp \<Rightarrow> task_row option \<times> database" where
  "updateTask db i updates queue_id now =
     (case select_live_task_by_id db i of
        None \<Rightarrow> (None, db)
      | Some existingTask \<Rightarrow>
          (let updatedTask = merge_updates existingTask updates now;
               db1 = update_tasks_where_id i
                       (\<lambda>r. r\<lparr>r_title := r_title updatedTask,
                               r_description := r_description updatedTask,
                               r_completed := r_completed updatedTask,
                               r_updated_at := r_updated_at updatedTask,
                               r_sync_status := r_sync_status updatedTask\<rparr>) db;
               db2 = insert_queue queue_id i ''update'' (UpdatePayload updatedTask) now 0 db1
           in (Some updatedTask, db2)))"

definition deleteTask :: "database \<Rightarrow> string \<Rightarrow> string \<Rightarrow> timestamp \<Rightarrow> bool \<times> database" where
  "deleteTask db i queue_id now =
     (case select_live_task_by_id db i of
        None \<Rightarrow> (False, db)
      | Some existingTask \<Rightarrow>
          (let db1 = update_tasks_where_id i
                       (\<lambda>r. r\<lparr>r_is_deleted := 1, r_updated_at := now,
                               r_sync_status := ''pending''\<rparr>) db;
               db2 = insert_queue queue_id i ''delete'' (DeletePayload i now) now 0 db1
           in (True, db2)))"

definition getTask :: "database \<Rightarrow> string \<Rightarrow> task option" where
  "getTask db i =
     (case select_task_by_id db i of
        None \<Rightarrow> None
      | Some r \<Rightarrow> if r_is_deleted r = 1 then None else Some (row_to_task r))"

text \<open>\<open>SELECT * FROM tasks WHERE is_deleted = 0\<close>\<close>

definition getAllTasks :: "database \<Rightarrow> task list" where
  "getAllTasks db = map row_to_task (filter (\<lambda>r. r_is_deleted r = 0) (tasks db))"

text \<open>\<open>SELECT * FROM tasks WHERE sync_status IN ('pending', 'error')\<close>\<close>

definition getTasksNeedingSync :: "database \<Rightarrow> task list" where
  "getTasksNeedingSync db =
     map row_to_task
       (filter (\<lambda>r. r_sync_status r = ''pending'' \<or> r_sync_status r = ''error'') (tasks db))"

section \<open>SyncService\<close>

text \<open>
  One item of \<open>BatchSyncResponse.processed_items\<close>: \<open>client_id\<close> echoes the task
  identifier, \<open>status\<close> is one of \<open>'success'\<close>, \<open>'conflict'\<close>, \<open>'error'\<close>.
\<close>

datatype outcome_status = StatusSuccess | StatusConflict | StatusError

text \<open>
  The interface types \<open>resolved_data\<close> as a \<open>Task\<close>, whose \<open>updated_at\<close> is a \<open>Date\<close>.
  The response is \<open>response.data\<close> of \<open>axios.post\<close>, a parsed JSON body, in which a date
  is its ISO-8601 text; only a response built in the same process (a stubbed transport)
  carries a \<open>Date\<close> object. A date of the response is one of the two, or absent; the
  text is kept as the instant it renders.
\<close>

datatype wire_date = DateObject timestamp | IsoText timestamp | NoDate

text \<open>The fields of \<open>resolved_data\<close> that the service reads.\<close>

record wire_task =
  w_title :: "string option"
  w_description :: "string option"
  w_completed :: bool
  w_updated_at :: wire_date
  w_server_id :: "string option"

record processed_item =
  p_client_id :: string
  p_server_id :: "string option"
  p_status :: outcome_status
  p_resolved_data :: "wire_task option"
  p_error :: "string option"

record batch_request =
  req_items :: "queue_row list"
  req_client_timestamp :: timestamp

record batch_response =
  processed_items :: "processed_item list"

text \<open>
  \<open>axios.post(apiUrl + '/batch', batchRequest)\<close>: the transport either throws an
  \<open>Error\<close> (\<open>Inl\<close> of its message) or returns the response body.
\<close>

type_synonym transport = "batch_request \<Rightarrow> string + batch_response"

record sync_error =
  e_task_id :: string
  e_operation :: string
  e_error :: string
  e_timestamp :: timestamp

record sync_result =
  success :: bool
  synced_items :: nat
  failed_items :: nat
  errors :: "sync_error list"

text \<open>
  \<open>Array.prototype.slice(start, stop)\<close>: a negative index counts from the end, and both
  indices are clamped to the array.
\<close>

definition js_slice :: "'a list \<Rightarrow> int \<Rightarrow> int \<Rightarrow> 'a list" where
  "js_slice xs start stop =
     (let len = int (length xs);
          k = (if start < 0 then max (len + start) 0 else min start len);
          fin = (if stop < 0 then max (len + stop) 0 else min stop len)
      in take (nat (fin - k)) (drop (nat k) xs))"

text \<open>
  The batching loop of \<open>sync\<close>:
  \<open>for (let i = 0; i < queueItems.length; i += batchSize) batches.push(queueItems.slice(i, i + batchSize))\<close>.
  Nothing in the source checks \<open>batchSize\<close>, so the loop need not end: not returning is
  \<open>None\<close>.
\<close>

partial_function (option) batch_loop ::
  "'a list \<Rightarrow> int \<Rightarrow> int \<Rightarrow> 'a list list \<Rightarrow> 'a list list option" where
  "batch_loop queueItems batchSize i batches =
     (if i < int (length queueItems)
      then batch_loop queueItems batchSize (i + batchSize)
             (batches @ [js_slice queueItems i (i + batchSize)])
      else Some batches)"

declare batch_loop.simps [code]

text \<open>
  Modelled from the spec: the order in which the store returns rows with equal
  \<open>created_at\<close> for \<open>SELECT * FROM sync_queue ORDER BY created_at\<close> (the \<open>Database\<close>
  class and the SQL engine behind \<open>db.all\<close> are not among the sources). The statement
  sorts by \<open>created_at\<close> ascending; following the spec's \<open>drain()\<close>, ties keep insertion
  sequence (a stable sort over the rows in rowid order). The statement reads only.
\<close>

definition select_queue_ordered :: "database \<Rightarrow> queue_row list" where
  "select_queue_ordered db = sort_key q_created_at (sync_queue db)"

text \<open>
  \<open>updateSyncStatus(taskId, status, serverData?)\<close>; \<open>now\<close> is its \<open>new Date()\<close>. The test
  \<open>serverData && serverData.server_id\<close> is on truthiness: an empty string fails it.
\<close>

definition updateSyncStatus ::
  "database \<Rightarrow> string \<Rightarrow> string \<Rightarrow> wire_task option \<Rightarrow> timestamp \<Rightarrow> database" where
  "updateSyncStatus db taskId status serverData now =
     (let db1 = update_tasks_where_id taskId
                  (\<lambda>r. r\<lparr>r_sync_status := status, r_last_synced_at := Some now\<rparr>) db;
          db2 = (case serverData of
                   None \<Rightarrow> db1
                 | Some d \<Rightarrow>
                     (case w_server_id d of
                        None \<Rightarrow> db1
                      | Some sid \<Rightarrow>
                          if sid = [] then db1
                          else update_tasks_where_id taskId (\<lambda>r. r\<lparr>r_server_id := Some sid\<rparr>) db1))
      in if status = ''synced'' then delete_queue_where_task_id taskId db2 else db2)"

text \<open>\<open>handleSyncError(item, error)\<close>; \<open>msg\<close> is \<open>error.message\<close>.\<close>

definition handleSyncError :: "database \<Rightarrow> queue_row \<Rightarrow> string \<Rightarrow> database" where
  "handleSyncError db item msg =
     (let newRetryCount = q_retry_count item + 1;
          db1 = update_queue_where_id (q_id item) newRetryCount msg db
      in if newRetryCount \<ge> 3
         then update_tasks_where_id (q_task_id item) (\<lambda>r. r\<lparr>r_sync_status := ''error''\<rparr>) db1
         else db1)"

text \<open>
  \<open>updated_at.toISOString()\<close> on a date of the response: the instant of a \<open>Date\<close>
  object; on a string or on \<open>undefined\<close> the call throws a \<open>TypeError\<close> (\<open>Inl\<close> of its
  message).
\<close>

definition not_a_function :: string where
  "not_a_function = ''processedItem.resolved_data.updated_at.toISOString is not a function''"

definition toISOString :: "wire_date \<Rightarrow> string + timestamp" where
  "toISOString d =
     (case d of
        DateObject t \<Rightarrow> Inr t
      | IsoText t \<Rightarrow> Inl not_a_function
      | NoDate \<Rightarrow> Inl ''Cannot read properties of undefined'')"

text \<open>
  The body of the loop of \<open>processBatch\<close> over the response (step 4): for a \<open>conflict\<close>
  item that carries \<open>resolved_data\<close> the arguments of the UPDATE are evaluated, which
  throws when \<open>updated_at\<close> is no \<open>Date\<close>, and then the row is overwritten.
\<close>

definition apply_resolved :: "database \<Rightarrow> processed_item \<Rightarrow> string + database" where
  "apply_resolved db processedItem =
     (case p_resolved_data processedItem of
        None \<Rightarrow> Inr db
      | Some d \<Rightarrow>
          if p_status processedItem = StatusConflict
          then (case toISOString (w_updated_at d) of
                  Inl msg \<Rightarrow> Inl msg
                | Inr modified \<Rightarrow>
                    Inr (update_tasks_where_id (p_client_id processedItem)
                           (\<lambda>r. r\<lparr>r_title := w_title d, r_description := w_description d,
                                   r_completed := flag (w_completed d), r_updated_at := modified,
                                   r_server_id := p_server_id processedItem\<rparr>) db))
          else Inr db)"

text \<open>
  The loop itself: it stops at the first item that throws, and the rows it has already
  overwritten stay overwritten.
\<close>

fun resolve_loop :: "database \<Rightarrow> processed_item list \<Rightarrow> string option \<times> database" where
  "resolve_loop db [] = (None, db)"
| "resolve_loop db (processedItem # rest) =
     (case apply_resolved db processedItem of
        Inl msg \<Rightarrow> (Some msg, db)
      | Inr db1 \<Rightarrow> resolve_loop db1 rest)"

text \<open>
  \<open>processBatch(items)\<close>: it returns the response, or throws what the transport or the
  loop throws; either way it leaves a database.
\<close>

definition processBatch ::
  "database \<Rightarrow> transport \<Rightarrow> queue_row list \<Rightarrow> timestamp \<Rightarrow> (string + batch_response) \<times> database" where
  "processBatch db post batch now =
     (case post \<lparr>req_items = batch, req_client_timestamp = now\<rparr> of
        Inl msg \<Rightarrow> (Inl msg, db)
      | Inr batchResponse \<Rightarrow>
          (case resolve_loop db (processed_items batchResponse) of
             (Some msg, db1) \<Rightarrow> (Inl msg, db1)
           | (None, db1) \<Rightarrow> (Inr batchResponse, db1)))"

text \<open>The local variables of \<open>sync\<close> that its loops update, with the database.\<close>

record pass_state =
  ps_db :: database
  syncedItems :: nat
  failedItems :: nat
  ps_errors :: "sync_error list"

text \<open>\<open>x || fallback\<close> on an optional string: \<open>undefined\<close> and the empty string are falsy.\<close>

definition or_else :: "string option \<Rightarrow> string \<Rightarrow> string" where
  "or_else v fallback = (case v of None \<Rightarrow> fallback | Some s \<Rightarrow> if s = [] then fallback else s)"

text \<open>The body of the loop over \<open>batchResponse.processed_items\<close> (step 4 of \<open>sync\<close>).\<close>

definition handle_processed ::
  "queue_row list \<Rightarrow> timestamp \<Rightarrow> pass_state \<Rightarrow> processed_item \<Rightarrow> pass_state" where
  "handle_processed batch now st processedItem =
     (if p_status processedItem = StatusSuccess
      then st\<lparr>syncedItems := syncedItems st + 1,
              ps_db := updateSyncStatus (ps_db st) (p_client_id processedItem) ''synced''
                         (p_resolved_data processedItem) now\<rparr>
      else st\<lparr>failedItems := failedItems st + 1,
              ps_errors := ps_errors st @
                [\<lparr>e_task_id = p_client_id processedItem,
                  e_operation =
                    or_else (map_option q_operation
                               (find (\<lambda>item. q_task_id item = p_client_id processedItem) batch))
                      ''unknown'',
                  e_error = or_else (p_error processedItem) ''Unknown error'',
                  e_timestamp = now\<rparr>],
              ps_db := updateSyncStatus (ps_db st) (p_client_id processedItem) ''error'' None now\<rparr>)"

text \<open>The body of the loop of the \<open>catch\<close> block.\<close>

definition handle_failed :: "string \<Rightarrow> timestamp \<Rightarrow> pass_state \<Rightarrow> queue_row \<Rightarrow> pass_state" where
  "handle_failed msg now st item =
     st\<lparr>ps_db := handleSyncError (ps_db st) item msg,
        ps_errors := ps_errors st @
          [\<lparr>e_task_id = q_task_id item, e_operation = q_operation item, e_error = msg,
            e_timestamp = now\<rparr>]\<rparr>"

text \<open>One turn of \<open>for (const batch of batches)\<close>: the \<open>try\<close> and its \<open>catch\<close>.\<close>

definition process_one_batch ::
  "transport \<Rightarrow> timestamp \<Rightarrow> pass_state \<Rightarrow> queue_row list \<Rightarrow> pass_state" where
  "process_one_batch post now st batch =
     (case processBatch (ps_db st) post batch now of
        (Inr batchResponse, db1) \<Rightarrow>
          foldl (handle_processed batch now) (st\<lparr>ps_db := db1\<rparr>) (processed_items batchResponse)
      | (Inl msg, db1) \<Rightarrow>
          foldl (handle_failed msg now)
            (st\<lparr>ps_db := db1, failedItems := failedItems st + length batch\<rparr>) batch)"

definition summary :: "pass_state \<Rightarrow> sync_result" where
  "summary st =
     \<lparr>success = (failedItems st = 0), synced_items = syncedItems st,
      failed_items = failedItems st, errors = ps_errors st\<rparr>"

text \<open>
  \<open>sync()\<close>: \<open>batchSize\<close> is the integer \<open>parseInt(process.env.SYNC_BATCH_SIZE || '50')\<close>
  returns (a setting that is no number is outside the model), \<open>post\<close> the transport, and \<open>now\<close> the instant of the pass: every \<open>new Date()\<close> of one pass is read
  as the same instant. The statements of the store are taken to succeed, so the \<open>catch\<close>
  block is entered exactly when \<open>processBatch\<close> throws: the transport's error, or the
  \<open>TypeError\<close> of a date that is no \<open>Date\<close>. The result is the summary and the database
  the pass leaves; \<open>None\<close> when the pass does not return.
\<close>

definition sync ::
  "database \<Rightarrow> transport \<Rightarrow> int \<Rightarrow> timestamp \<Rightarrow> (sync_result \<times> database) option" where
  "sync db post batchSize now =
     (let queueItems = select_queue_ordered db in
      case batch_loop queueItems batchSize 0 [] of
        None \<Rightarrow> None
      | Some batches \<Rightarrow>
          (let st = foldl (process_one_batch post now)
                      \<lparr>ps_db = db, syncedItems = 0, failedItems = 0, ps_errors = []\<rparr> batches
           in Some (summary st, ps_db st)))"

text \<open>
  \<open>addToSyncQueue(taskId, operation, data)\<close>; \<open>queue_id\<close> is the identifier
  \<open>require('uuid').v4()\<close> returns.
\<close>

definition addToSyncQueue ::
  "database \<Rightarrow> string \<Rightarrow> string \<Rightarrow> payload \<Rightarrow> string \<Rightarrow> timestamp \<Rightarrow> database" where
  "addToSyncQueue db taskId operation pdata queue_id now =
     insert_queue queue_id taskId operation pdata now 0 db"

section \<open>Derived notions\<close>

text \<open>
  The row the two UPDATEs of \<open>updateSyncStatus\<close> leave in place of a row \<open>r\<close> of the
  task.
\<close>

definition stamped :: "string \<Rightarrow> wire_task option \<Rightarrow> timestamp \<Rightarrow> task_row \<Rightarrow> task_row" where
  "stamped status serverData now r =
     (let r1 = r\<lparr>r_sync_status := status, r_last_synced_at := Some now\<rparr> in
      case serverData of
        None \<Rightarrow> r1
      | Some d \<Rightarrow> (case w_server_id d of
                     None \<Rightarrow> r1
                   | Some sid \<Rightarrow> if sid = [] then r1 else r1\<lparr>r_server_id := Some sid\<rparr>))"

text \<open>
  What \<open>processBatch\<close> throws on a batch, if it throws: the transport's error, or the
  \<open>TypeError\<close> of the first \<open>conflict\<close> item whose resolved data carries no \<open>Date\<close>. It
  depends on the transport's answer only, not on the store.
\<close>

definition type_error_of :: "processed_item \<Rightarrow> string option" where
  "type_error_of processedItem =
     (case p_resolved_data processedItem of
        None \<Rightarrow> None
      | Some d \<Rightarrow>
          if p_status processedItem = StatusConflict
          then (case toISOString (w_updated_at d) of Inl msg \<Rightarrow> Some msg | Inr t \<Rightarrow> None)
          else None)"

fun first_type_error :: "processed_item list \<Rightarrow> string option" where
  "first_type_error [] = None"
| "first_type_error (processedItem # rest) =
     (case type_error_of processedItem of
        Some msg \<Rightarrow> Some msg
      | None \<Rightarrow> first_type_error rest)"

definition batch_error :: "transport \<Rightarrow> timestamp \<Rightarrow> queue_row list \<Rightarrow> string option" where
  "batch_error post now batch =
     (case post \<lparr>req_items = batch, req_client_timestamp = now\<rparr> of
        Inl msg \<Rightarrow> Some msg
      | Inr r \<Rightarrow> first_type_error (processed_items r))"

text \<open>
  What one batch adds to \<open>syncedItems\<close> and to \<open>failedItems\<close>: the \<open>success\<close> items of
  the response; the other items of the response, or the whole batch when \<open>processBatch\<close>
  throws.
\<close>

definition batch_synced :: "transport \<Rightarrow> timestamp \<Rightarrow> queue_row list \<Rightarrow> nat" where
  "batch_synced post now batch =
     (case post \<lparr>req_items = batch, req_client_timestamp = now\<rparr> of
        Inl msg \<Rightarrow> 0
      | Inr r \<Rightarrow>
          (case first_type_error (processed_items r) of
             Some msg \<Rightarrow> 0
           | None \<Rightarrow> length (filter (\<lambda>p. p_status p = StatusSuccess) (processed_items r))))"

definition batch_failed :: "transport \<Rightarrow> timestamp \<Rightarrow> queue_row list \<Rightarrow> nat" where
  "batch_failed post now batch =
     (case post \<lparr>req_items = batch, req_client_timestamp = now\<rparr> of
        Inl msg \<Rightarrow> length batch
      | Inr r \<Rightarrow>
          (case first_type_error (processed_items r) of
             Some msg \<Rightarrow> length batch
           | None \<Rightarrow> length (filter (\<lambda>p. p_status p \<noteq> StatusSuccess) (processed_items r))))"

text \<open>
  The rows a failed batch leaves in \<open>sync_queue\<close> and in \<open>tasks\<close>: \<open>handleSyncError\<close>
  of every item of the batch, in turn.
\<close>

definition retried :: "queue_row list \<Rightarrow> string \<Rightarrow> queue_row \<Rightarrow> queue_row" where
  "retried batch msg q =
     (case find (\<lambda>item. q_id item = q_id q) (rev batch) of
        None \<Rightarrow> q
      | Some item \<Rightarrow> q\<lparr>q_retry_count := q_retry_count item + 1, q_error_message := Some msg\<rparr>)"

definition exhausted :: "queue_row list \<Rightarrow> string \<Rightarrow> bool" where
  "exhausted batch taskId =
     (\<exists>item \<in> set batch. q_task_id item = taskId \<and> 3 \<le> q_retry_count item + 1)"

section \<open>Example rows, outcomes and transports\<close>

text \<open>The rows, outcome items and transports of the concrete states below.\<close>

definition example_row :: "string \<Rightarrow> int \<Rightarrow> string \<Rightarrow> timestamp \<Rightarrow> task_row" where
  "example_row i deleted status modified =
     \<lparr>r_id = i, r_title = Some ''A'', r_description = None, r_completed = 0, r_created_at = 1,
      r_updated_at = modified, r_is_deleted = deleted, r_sync_status = status,
      r_server_id = None, r_last_synced_at = None\<rparr>"

definition example_item :: "string \<Rightarrow> string \<Rightarrow> string \<Rightarrow> timestamp \<Rightarrow> nat \<Rightarrow> queue_row" where
  "example_item qid tid operation created retries =
     \<lparr>q_id = qid, q_task_id = tid, q_operation = operation, q_data = DeletePayload tid created,
      q_created_at = created, q_retry_count = retries, q_error_message = None\<rparr>"

text \<open>The queue row \<open>updateTask\<close> adds for a row it has just written.\<close>

definition update_item :: "string \<Rightarrow> task_row \<Rightarrow> queue_row" where
  "update_item qid row =
     \<lparr>q_id = qid, q_task_id = r_id row, q_operation = ''update'', q_data = UpdatePayload row,
      q_created_at = r_updated_at row, q_retry_count = 0, q_error_message = None\<rparr>"

text \<open>Resolved data with a title and a modification date, and no \<open>server_id\<close> of its own.\<close>

definition example_resolved :: "string \<Rightarrow> wire_date \<Rightarrow> wire_task" where
  "example_resolved title modified =
     \<lparr>w_title = Some title, w_description = None, w_completed = True,
      w_updated_at = modified, w_server_id = None\<rparr>"

definition outcome :: "string \<Rightarrow> outcome_status \<Rightarrow> wire_task option \<Rightarrow> processed_item" where
  "outcome i status resolved =
     \<lparr>p_client_id = i, p_server_id = Some ''srv1'', p_status = status,
      p_resolved_data = resolved, p_error = None\<rparr>"

text \<open>A transport that throws on every request.\<close>

definition always_fails :: transport where
  "always_fails req = Inl ''Network Error''"

text \<open>A transport that answers every request with the same items.\<close>

definition answers :: "processed_item list \<Rightarrow> transport" where
  "answers ps req = Inr \<lparr>processed_items = ps\<rparr>"

text \<open>A transport that throws on the batch with the given queue identifiers only.\<close>

definition fails_on :: "string list \<Rightarrow> processed_item list \<Rightarrow> transport" where
  "fails_on qids ps req =
     (if map q_id (req_items req) = qids then Inl ''Network Error''
      else Inr \<lparr>processed_items = ps\<rparr>)"

section \<open>Lists of rows\<close>

text \<open>
  Facts about \<open>find\<close> (the \<open>db.get\<close> of a SELECT) and about rewriting the rows that
  satisfy a condition (an UPDATE with a WHERE clause).
\<close>

lemma find_distinct_key:
  assumes "distinct (map f xs)" "x \<in> set xs"
  shows "find (\<lambda>y. f y = f x) xs = Some x"
  using assms
proof (induction xs)
  case Nil
  then show ?case by simp
next
  case (Cons a xs)
  then show ?case by (cases "a = x") (auto simp: image_iff)
qed

lemma find_SomeD:
  "find P xs = Some x \<Longrightarrow> x \<in> set xs \<and> P x"
  by (induction xs) (auto split: if_splits)

lemma map_if_holds:
  assumes "\<And>x. Q (f x)"
  shows "\<forall>y \<in> set (map (\<lambda>x. if P x then f x else x) xs). P y \<longrightarrow> Q y"
  using assms by (induction xs) auto

lemma update_tasks_where_id_ids:
  assumes "\<And>r. r_id (f r) = r_id r"
  shows "map r_id (tasks (update_tasks_where_id i f db)) = map r_id (tasks db)"
proof -
  have "map r_id (map (\<lambda>r. if r_id r = i then f r else r) rows) = map r_id rows" for rows
    using assms by (induction rows) auto
  then show ?thesis by (simp add: update_tasks_where_id_def)
qed

lemma tasks_insert_queue [simp]: "tasks (insert_queue q t m p c n db) = tasks db"
  by (simp add: insert_queue_def)

lemma tasks_deleteTask_ids:
  "map r_id (tasks (snd (deleteTask db i queue_id now))) = map r_id (tasks db)"
  by (simp add: deleteTask_def Let_def update_tasks_where_id_ids split: option.split)

section \<open>Effects of the statements and of the helpers of the sync service\<close>

lemma map_if_key:
  assumes "\<And>x. k (f x) = k x"
  shows "map k (map (\<lambda>x. if P x then f x else x) xs) = map k xs"
  using assms by (induction xs) auto

lemma filter_other_map_if:
  "filter (\<lambda>x. \<not> P x) (map (\<lambda>x. if P x then f x else x) xs) = filter (\<lambda>x. \<not> P x) xs"
  if "\<And>x. P (f x) = P x"
  using that by (induction xs) auto

lemma sync_queue_update_tasks [simp]:
  "sync_queue (update_tasks_where_id i f db) = sync_queue db"
  by (simp add: update_tasks_where_id_def)

lemma tasks_update_queue [simp]:
  "tasks (update_queue_where_id qid n msg db) = tasks db"
  by (simp add: update_queue_where_id_def)

lemma tasks_delete_queue [simp]:
  "tasks (delete_queue_where_task_id tid db) = tasks db"
  by (simp add: delete_queue_where_task_id_def)

lemma sync_queue_delete_queue [simp]:
  "sync_queue (delete_queue_where_task_id tid db) = filter (\<lambda>q. q_task_id q \<noteq> tid) (sync_queue db)"
  by (simp add: delete_queue_where_task_id_def)

lemma sync_queue_handleSyncError:
  "sync_queue (handleSyncError db item msg) =
     map (\<lambda>q. if q_id q = q_id item
               then q\<lparr>q_retry_count := q_retry_count item + 1, q_error_message := Some msg\<rparr>
               else q) (sync_queue db)"
  by (simp add: handleSyncError_def Let_def update_queue_where_id_def)

lemma tasks_handleSyncError:
  "tasks (handleSyncError db item msg) =
     (if 3 \<le> q_retry_count item + 1
      then map (\<lambda>r. if r_id r = q_task_id item then r\<lparr>r_sync_status := ''error''\<rparr> else r) (tasks db)
      else tasks db)"
  by (simp add: handleSyncError_def Let_def update_tasks_where_id_def)

lemma queue_ids_handleSyncError:
  "map q_id (sync_queue (handleSyncError db item msg)) = map q_id (sync_queue db)"
  unfolding sync_queue_handleSyncError by (rule map_if_key) simp

lemma task_ids_handleSyncError:
  "map r_id (tasks (handleSyncError db item msg)) = map r_id (tasks db)"
  unfolding tasks_handleSyncError by (simp add: map_if_key)

lemma sync_queue_updateSyncStatus:
  "sync_queue (updateSyncStatus db taskId status serverData now) =
     (if status = ''synced'' then filter (\<lambda>q. q_task_id q \<noteq> taskId) (sync_queue db)
      else sync_queue db)"
  by (simp add: updateSyncStatus_def Let_def split: option.split)

lemma map_if_twice:
  assumes "\<And>x. P (f x) = P x"
  shows "map (\<lambda>x. if P x then g x else x) (map (\<lambda>x. if P x then f x else x) xs)
       = map (\<lambda>x. if P x then g (f x) else x) xs"
  using assms by (induction xs) auto

lemma tasks_updateSyncStatus:
  "tasks (updateSyncStatus db taskId status serverData now) =
     map (\<lambda>r. if r_id r = taskId then stamped status serverData now r else r) (tasks db)"
proof (cases serverData)
  case None
  then show ?thesis
    by (simp add: updateSyncStatus_def Let_def update_tasks_where_id_def stamped_def)
next
  case (Some d)
  show ?thesis
  proof (cases "w_server_id d")
    case None
    with Some show ?thesis
      by (simp add: updateSyncStatus_def Let_def update_tasks_where_id_def stamped_def)
  next
    case (Some sid)
    with \<open>serverData = Some d\<close> show ?thesis
      by (simp add: updateSyncStatus_def Let_def update_tasks_where_id_def stamped_def map_if_twice)
  qed
qed

lemma stamped_fields:
  "r_id (stamped status serverData now r) = r_id r"
  "r_sync_status (stamped status serverData now r) = status"
  "r_last_synced_at (stamped status serverData now r) = Some now"
  by (simp_all add: stamped_def Let_def split: option.split)

lemma fst_resolve_loop:
  "fst (resolve_loop db ps) = first_type_error ps"
proof (induction ps arbitrary: db)
  case Nil
  then show ?case by simp
next
  case (Cons p ps)
  show ?case
  proof (cases "type_error_of p")
    case None
    then obtain db1 where "apply_resolved db p = Inr db1"
      by (auto simp: type_error_of_def apply_resolved_def split: option.splits if_splits sum.splits)
    with None Cons show ?thesis by simp
  next
    case (Some msg)
    then have "apply_resolved db p = Inl msg"
      by (auto simp: type_error_of_def apply_resolved_def split: option.splits if_splits sum.splits)
    with Some show ?thesis by simp
  qed
qed

lemma sync_queue_apply_resolved:
  "apply_resolved db p = Inr db1 \<Longrightarrow> sync_queue db1 = sync_queue db"
  by (auto simp: apply_resolved_def split: option.splits if_splits sum.splits)

lemma sync_queue_resolve_loop [simp]:
  "sync_queue (snd (resolve_loop db ps)) = sync_queue db"
proof (induction ps arbitrary: db)
  case Nil
  then show ?case by simp
next
  case (Cons p ps)
  then show ?case
    by (cases "apply_resolved db p") (simp_all add: sync_queue_apply_resolved)
qed

lemma fst_processBatch:
  "fst (processBatch db post batch now) =
     (case post \<lparr>req_items = batch, req_client_timestamp = now\<rparr> of
        Inl msg \<Rightarrow> Inl msg
      | Inr r \<Rightarrow> (case first_type_error (processed_items r) of
                    Some msg \<Rightarrow> Inl msg
                  | None \<Rightarrow> Inr r))"
proof (cases "post \<lparr>req_items = batch, req_client_timestamp = now\<rparr>")
  case (Inl msg)
  then show ?thesis by (simp add: processBatch_def)
next
  case (Inr r)
  obtain e db1 where l: "resolve_loop db (processed_items r) = (e, db1)" by force
  then have e: "first_type_error (processed_items r) = e"
    using fst_resolve_loop [of db "processed_items r"] by simp
  show ?thesis
    by (cases e) (simp_all add: processBatch_def Inr l e)
qed

lemma snd_processBatch:
  "snd (processBatch db post batch now) =
     (case post \<lparr>req_items = batch, req_client_timestamp = now\<rparr> of
        Inl msg \<Rightarrow> db
      | Inr r \<Rightarrow> snd (resolve_loop db (processed_items r)))"
proof (cases "post \<lparr>req_items = batch, req_client_timestamp = now\<rparr>")
  case (Inl msg)
  then show ?thesis by (simp add: processBatch_def)
next
  case (Inr r)
  obtain e db1 where l: "resolve_loop db (processed_items r) = (e, db1)" by force
  show ?thesis
    by (cases e) (simp_all add: processBatch_def Inr l)
qed

lemma sync_queue_processBatch [simp]:
  "sync_queue (snd (processBatch db post batch now)) = sync_queue db"
  by (simp add: snd_processBatch split: sum.split)
subsection \<open>The counters of a pass\<close>

lemma handle_processed_counts:
  "syncedItems (handle_processed batch now st p) =
     syncedItems st + (if p_status p = StatusSuccess then 1 else 0)"
  "failedItems (handle_processed batch now st p) =
     failedItems st + (if p_status p = StatusSuccess then 0 else 1)"
  "length (ps_errors (handle_processed batch now st p)) =
     length (ps_errors st) + (if p_status p = StatusSuccess then 0 else 1)"
  by (simp_all add: handle_processed_def)

lemma foldl_handle_processed_counts:
  "syncedItems (foldl (handle_processed batch now) st ps) =
     syncedItems st + length (filter (\<lambda>p. p_status p = StatusSuccess) ps)
   \<and> failedItems (foldl (handle_processed batch now) st ps) =
     failedItems st + length (filter (\<lambda>p. p_status p \<noteq> StatusSuccess) ps)
   \<and> length (ps_errors (foldl (handle_processed batch now) st ps)) =
     length (ps_errors st) + length (filter (\<lambda>p. p_status p \<noteq> StatusSuccess) ps)"
  by (induction ps arbitrary: st) (simp_all add: handle_processed_counts)

lemma foldl_handle_failed_counts:
  "syncedItems (foldl (handle_failed msg now) st items) = syncedItems st
   \<and> failedItems (foldl (handle_failed msg now) st items) = failedItems st
   \<and> length (ps_errors (foldl (handle_failed msg now) st items)) =
       length (ps_errors st) + length items"
  by (induction items arbitrary: st) (simp_all add: handle_failed_def)

subsection \<open>One batch\<close>

lemma process_one_batch_throws:
  assumes "batch_error post now batch = Some msg"
  shows "process_one_batch post now st batch =
           foldl (handle_failed msg now)
             (st\<lparr>ps_db := snd (processBatch (ps_db st) post batch now),
                 failedItems := failedItems st + length batch\<rparr>) batch"
proof -
  obtain x db1 where p: "processBatch (ps_db st) post batch now = (x, db1)" by force
  then have "x = Inl msg"
    using fst_processBatch [of "ps_db st" post batch now] assms
    by (simp add: batch_error_def split: sum.splits option.splits)
  with p show ?thesis by (simp add: process_one_batch_def)
qed

lemma process_one_batch_transport:
  assumes "post \<lparr>req_items = batch, req_client_timestamp = now\<rparr> = Inl msg"
  shows "process_one_batch post now st batch =
           foldl (handle_failed msg now) (st\<lparr>failedItems := failedItems st + length batch\<rparr>) batch"
  using assms by (simp add: process_one_batch_def processBatch_def)

lemma process_one_batch_returns:
  assumes "batch_error post now batch = None"
  shows "\<exists>r. post \<lparr>req_items = batch, req_client_timestamp = now\<rparr> = Inr r
           \<and> first_type_error (processed_items r) = None
           \<and> process_one_batch post now st batch =
               foldl (handle_processed batch now)
                 (st\<lparr>ps_db := snd (processBatch (ps_db st) post batch now)\<rparr>) (processed_items r)"
proof -
  from assms obtain r where r: "post \<lparr>req_items = batch, req_client_timestamp = now\<rparr> = Inr r"
    "first_type_error (processed_items r) = None"
    by (auto simp: batch_error_def split: sum.splits)
  obtain x db1 where p: "processBatch (ps_db st) post batch now = (x, db1)" by force
  then have "x = Inr r"
    using fst_processBatch [of "ps_db st" post batch now] r by simp
  with p r show ?thesis by (simp add: process_one_batch_def)
qed

lemma process_one_batch_counts:
  "syncedItems (process_one_batch post now st batch) = syncedItems st + batch_synced post now batch
   \<and> failedItems (process_one_batch post now st batch) = failedItems st + batch_failed post now batch
   \<and> length (ps_errors (process_one_batch post now st batch)) =
       length (ps_errors st) + batch_failed post now batch"
proof (cases "batch_error post now batch")
  case (Some msg)
  then have "batch_synced post now batch = 0" "batch_failed post now batch = length batch"
    by (auto simp: batch_error_def batch_synced_def batch_failed_def split: sum.splits)
  then show ?thesis
    by (simp add: process_one_batch_throws [OF Some] foldl_handle_failed_counts)
next
  case None
  from process_one_batch_returns [OF None, of st] obtain r where r:
    "post \<lparr>req_items = batch, req_client_timestamp = now\<rparr> = Inr r"
    "first_type_error (processed_items r) = None"
    "process_one_batch post now st batch =
       foldl (handle_processed batch now)
         (st\<lparr>ps_db := snd (processBatch (ps_db st) post batch now)\<rparr>) (processed_items r)"
    by blast
  then show ?thesis
    by (simp add: batch_synced_def batch_failed_def foldl_handle_processed_counts)
qed

lemma foldl_process_one_batch_counts:
  "syncedItems (foldl (process_one_batch post now) st batches) =
     syncedItems st + sum_list (map (batch_synced post now) batches)
   \<and> failedItems (foldl (process_one_batch post now) st batches) =
     failedItems st + sum_list (map (batch_failed post now) batches)
   \<and> length (ps_errors (foldl (process_one_batch post now) st batches)) =
     length (ps_errors st) + sum_list (map (batch_failed post now) batches)"
  by (induction batches arbitrary: st) (simp_all add: process_one_batch_counts)

subsection \<open>A failed batch\<close>

lemma retried_snoc:
  "retried (items @ [x]) msg q =
     (if q_id x = q_id q
      then q\<lparr>q_retry_count := q_retry_count x + 1, q_error_message := Some msg\<rparr>
      else retried items msg q)"
  by (simp add: retried_def)

lemma q_id_retried [simp]: "q_id (retried items msg q) = q_id q"
  by (simp add: retried_def split: option.split)

lemma q_task_id_retried [simp]: "q_task_id (retried items msg q) = q_task_id q"
  by (simp add: retried_def split: option.split)

lemma retried_overwritten:
  "(retried items msg q)\<lparr>q_retry_count := n, q_error_message := m\<rparr> =
   q\<lparr>q_retry_count := n, q_error_message := m\<rparr>"
  by (simp add: retried_def split: option.split)

lemma ps_db_handle_failed:
  "ps_db (handle_failed msg now st item) = handleSyncError (ps_db st) item msg"
  by (simp add: handle_failed_def)

lemma sync_queue_foldl_handle_failed:
  "sync_queue (ps_db (foldl (handle_failed msg now) st items)) =
     map (retried items msg) (sync_queue (ps_db st))"
proof (induction items rule: rev_induct)
  case Nil
  then show ?case by (simp add: retried_def)
next
  case (snoc x items)
  show ?case
    by (simp add: ps_db_handle_failed sync_queue_handleSyncError snoc retried_snoc
        retried_overwritten cong: if_cong)
qed

lemma exhausted_snoc:
  "exhausted (items @ [x]) i =
     (exhausted items i \<or> (q_task_id x = i \<and> 3 \<le> q_retry_count x + 1))"
  by (auto simp: exhausted_def)

lemma tasks_foldl_handle_failed:
  "tasks (ps_db (foldl (handle_failed msg now) st items)) =
     map (\<lambda>r. if exhausted items (r_id r) then r\<lparr>r_sync_status := ''error''\<rparr> else r)
       (tasks (ps_db st))"
proof (induction items rule: rev_induct)
  case Nil
  then show ?case by (simp add: exhausted_def)
next
  case (snoc x items)
  show ?case
    by (simp add: ps_db_handle_failed tasks_handleSyncError snoc exhausted_snoc cong: if_cong)
qed
subsection \<open>The queue rows of one record\<close>

lemma record_rows_updateSyncStatus:
  assumes "status = ''synced'' \<longrightarrow> taskId \<noteq> t"
  shows "filter (\<lambda>q. q_task_id q = t) (sync_queue (updateSyncStatus db taskId status d now)) =
         filter (\<lambda>q. q_task_id q = t) (sync_queue db)"
proof (cases "status = ''synced''")
  case True
  with assms have "taskId \<noteq> t" by simp
  then have "filter (\<lambda>q. q_task_id q = t) (filter (\<lambda>q. q_task_id q \<noteq> taskId) xs) =
             filter (\<lambda>q. q_task_id q = t) xs" for xs :: "queue_row list"
    by (induction xs) auto
  with True show ?thesis by (simp add: sync_queue_updateSyncStatus)
next
  case False
  then show ?thesis by (simp add: sync_queue_updateSyncStatus)
qed

lemma record_rows_handle_processed:
  assumes "p_status p = StatusSuccess \<longrightarrow> p_client_id p \<noteq> t"
  shows "filter (\<lambda>q. q_task_id q = t) (sync_queue (ps_db (handle_processed batch now st p))) =
         filter (\<lambda>q. q_task_id q = t) (sync_queue (ps_db st))"
  using assms by (simp add: handle_processed_def record_rows_updateSyncStatus)

lemma record_rows_foldl_handle_processed:
  assumes "\<forall>p \<in> set ps. p_status p = StatusSuccess \<longrightarrow> p_client_id p \<noteq> t"
  shows "filter (\<lambda>q. q_task_id q = t) (sync_queue (ps_db (foldl (handle_processed batch now) st ps))) =
         filter (\<lambda>q. q_task_id q = t) (sync_queue (ps_db st))"
  using assms by (induction ps arbitrary: st) (simp_all add: record_rows_handle_processed)

lemma record_rows_retried:
  "map q_id (filter (\<lambda>q. q_task_id q = t) (map (retried items msg) xs)) =
   map q_id (filter (\<lambda>q. q_task_id q = t) xs)"
  by (induction xs) simp_all

lemma record_rows_process_one_batch:
  assumes "\<forall>r. post \<lparr>req_items = batch, req_client_timestamp = now\<rparr> = Inr r \<longrightarrow>
             (\<forall>p \<in> set (processed_items r). p_status p = StatusSuccess \<longrightarrow> p_client_id p \<noteq> t)"
  shows "map q_id (filter (\<lambda>q. q_task_id q = t)
                     (sync_queue (ps_db (process_one_batch post now st batch)))) =
         map q_id (filter (\<lambda>q. q_task_id q = t) (sync_queue (ps_db st)))"
proof (cases "batch_error post now batch")
  case (Some msg)
  show ?thesis
    by (simp add: process_one_batch_throws [OF Some] sync_queue_foldl_handle_failed
        record_rows_retried)
next
  case None
  from process_one_batch_returns [OF None, of st] obtain r where r:
    "post \<lparr>req_items = batch, req_client_timestamp = now\<rparr> = Inr r"
    "process_one_batch post now st batch =
       foldl (handle_processed batch now)
         (st\<lparr>ps_db := snd (processBatch (ps_db st) post batch now)\<rparr>) (processed_items r)"
    by blast
  with assms have "\<forall>p \<in> set (processed_items r). p_status p = StatusSuccess \<longrightarrow> p_client_id p \<noteq> t"
    by simp
  then show ?thesis
    by (simp add: r(2) record_rows_foldl_handle_processed)
qed

lemma record_rows_foldl_process_one_batch:
  assumes "\<forall>b \<in> set batches. \<forall>r. post \<lparr>req_items = b, req_client_timestamp = now\<rparr> = Inr r \<longrightarrow>
             (\<forall>p \<in> set (processed_items r). p_status p = StatusSuccess \<longrightarrow> p_client_id p \<noteq> t)"
  shows "map q_id (filter (\<lambda>q. q_task_id q = t)
                     (sync_queue (ps_db (foldl (process_one_batch post now) st batches)))) =
         map q_id (filter (\<lambda>q. q_task_id q = t) (sync_queue (ps_db st)))"
  using assms
proof (induction batches arbitrary: st)
  case Nil
  then show ?case by simp
next
  case (Cons b batches)
  then have "\<forall>r. post \<lparr>req_items = b, req_client_timestamp = now\<rparr> = Inr r \<longrightarrow>
      (\<forall>p \<in> set (processed_items r). p_status p = StatusSuccess \<longrightarrow> p_client_id p \<noteq> t)"
    by simp
  from record_rows_process_one_batch
    [where post = post and batch = b and now = now and t = t and st = st, OF this] Cons
  show ?case by simp
qed

text \<open>The equations that evaluate a pass on a concrete store.\<close>

lemmas sync_eval =
  sync_def select_queue_ordered_def batch_loop.simps js_slice_def process_one_batch_def
  processBatch_def handle_failed_def handle_processed_def handleSyncError_def
  updateSyncStatus_def apply_resolved_def toISOString_def not_a_function_def
  update_queue_where_id_def
  update_tasks_where_id_def delete_queue_where_task_id_def summary_def or_else_def flag_def
  example_row_def example_item_def update_item_def example_resolved_def outcome_def
  always_fails_def answers_def fails_on_def

section \<open>The task identifiers of the store\<close>

text \<open>
  The identifiers of \<open>tasks\<close> stay unique: \<open>createTask\<close> adds a row under a fresh
  identifier, and no other operation of the two services adds, removes or renames a row.
\<close>

lemma createTask_keeps_key:
  assumes "distinct (map r_id (tasks db))" "new_id \<notin> set (map r_id (tasks db))"
  shows "distinct (map r_id (tasks (snd (createTask db taskData new_id queue_id now))))"
  using assms by (simp add: createTask_def Let_def insert_task_def)

lemma updateTask_task_ids:
  "map r_id (tasks (snd (updateTask db i updates queue_id now))) = map r_id (tasks db)"
  by (simp add: updateTask_def Let_def update_tasks_where_id_ids split: option.split)

lemma task_ids_apply_resolved:
  "apply_resolved db p = Inr db1 \<Longrightarrow> map r_id (tasks db1) = map r_id (tasks db)"
  by (auto simp: apply_resolved_def update_tasks_where_id_ids
      split: option.splits if_splits sum.splits)

lemma task_ids_resolve_loop:
  "map r_id (tasks (snd (resolve_loop db ps))) = map r_id (tasks db)"
proof (induction ps arbitrary: db)
  case Nil
  then show ?case by simp
next
  case (Cons p ps)
  then show ?case
    by (cases "apply_resolved db p") (simp_all add: task_ids_apply_resolved)
qed

lemma task_ids_processBatch:
  "map r_id (tasks (snd (processBatch db post batch now))) = map r_id (tasks db)"
  by (simp add: snd_processBatch task_ids_resolve_loop split: sum.split)

lemma task_ids_updateSyncStatus:
  "map r_id (tasks (updateSyncStatus db taskId status serverData now)) = map r_id (tasks db)"
  unfolding tasks_updateSyncStatus by (rule map_if_key) (simp add: stamped_fields)

lemma task_ids_handle_processed:
  "map r_id (tasks (ps_db (handle_processed batch now st p))) = map r_id (tasks (ps_db st))"
  by (simp add: handle_processed_def task_ids_updateSyncStatus)

lemma task_ids_foldl_handle_processed:
  "map r_id (tasks (ps_db (foldl (handle_processed batch now) st ps))) = map r_id (tasks (ps_db st))"
  by (induction ps arbitrary: st) (simp_all add: task_ids_handle_processed)

lemma task_ids_foldl_handle_failed:
  "map r_id (tasks (ps_db (foldl (handle_failed msg now) st items))) = map r_id (tasks (ps_db st))"
  by (induction items arbitrary: st) (simp_all add: ps_db_handle_failed task_ids_handleSyncError)

lemma task_ids_process_one_batch:
  "map r_id (tasks (ps_db (process_one_batch post now st batch))) = map r_id (tasks (ps_db st))"
proof (cases "batch_error post now batch")
  case (Some msg)
  show ?thesis
    by (simp add: process_one_batch_throws [OF Some] task_ids_foldl_handle_failed
        task_ids_processBatch)
next
  case None
  from process_one_batch_returns [OF None, of st] obtain r :: batch_response where
    "process_one_batch post now st batch =
       foldl (handle_processed batch now)
         (st\<lparr>ps_db := snd (processBatch (ps_db st) post batch now)\<rparr>) (processed_items r)"
    by blast
  then show ?thesis
    by (simp add: task_ids_foldl_handle_processed task_ids_processBatch)
qed

lemma task_ids_foldl_process_one_batch:
  "map r_id (tasks (ps_db (foldl (process_one_batch post now) st batches))) =
   map r_id (tasks (ps_db st))"
  by (induction batches arbitrary: st) (simp_all add: task_ids_process_one_batch)

lemma sync_task_ids:
  assumes "sync db post batchSize now = Some (res, db')"
  shows "map r_id (tasks db') = map r_id (tasks db)"
proof -
  from assms obtain batches where
    "db' = ps_db (foldl (process_one_batch post now)
               \<lparr>ps_db = db, syncedItems = 0, failedItems = 0, ps_errors = []\<rparr> batches)"
    by (auto simp: sync_def Let_def split: option.splits)
  then show ?thesis by (simp add: task_ids_foldl_process_one_batch)
qed

section \<open>Not-found paths of the task service\<close>

text \<open>
  C10. When no row of \<open>tasks\<close> has the identifier with \<open>is_deleted = 0\<close>, \<open>updateTask\<close>
  returns null and \<open>deleteTask\<close> returns false, and each returns the database as it was:
  no row of \<open>tasks\<close> is modified and nothing is added to \<open>sync_queue\<close>.
\<close>

theorem not_found_leaves_store_unchanged:
  assumes "\<forall>r \<in> set (tasks db). r_id r = i \<longrightarrow> r_is_deleted r \<noteq> 0"
  shows "updateTask db i updates queue_id now = (None, db)
       \<and> deleteTask db i queue_id' now' = (False, db)"
proof -
  have "find (\<lambda>r. r_id r = i \<and> r_is_deleted r = 0) (tasks db) = None"
    using assms by (auto simp: find_None_iff)
  then show ?thesis
    by (simp add: updateTask_def deleteTask_def select_live_task_by_id_def)
qed

theorem not_found_leaves_store_unchanged_witness:
  "updateTask \<lparr>tasks = [example_row ''a'' 1 ''pending'' 1], sync_queue = []\<rparr> ''a''
     \<lparr>pt_title = Some (Some ''B''), pt_description = None, pt_completed = None\<rparr> ''q'' 5
   = (None, \<lparr>tasks = [example_row ''a'' 1 ''pending'' 1], sync_queue = []\<rparr>)
   \<and> deleteTask \<lparr>tasks = [example_row ''a'' 1 ''pending'' 1], sync_queue = []\<rparr> ''a'' ''q'' 5
   = (False, \<lparr>tasks = [example_row ''a'' 1 ''pending'' 1], sync_queue = []\<rparr>)"
  using not_found_leaves_store_unchanged
    [of "\<lparr>tasks = [example_row ''a'' 1 ''pending'' 1], sync_queue = []\<rparr>" "''a''"
        "\<lparr>pt_title = Some (Some ''B''), pt_description = None, pt_completed = None\<rparr>"
        "''q''" 5 "''q''" 5]
  by (simp add: example_row_def)

section \<open>Soft delete\<close>

text \<open>
  C9. In a store whose task identifiers are unique (\<open>id\<close> is the primary key), a row
  with \<open>is_deleted = 1\<close> is hidden from the read paths and kept in the table: \<open>getTask\<close>
  on its identifier returns null, \<open>getAllTasks\<close> returns no task with its identifier, and
  \<open>SELECT * FROM tasks WHERE id = ?\<close> still returns the row. \<open>deleteTask\<close> never removes
  a row (the identifiers of \<open>tasks\<close> are the same, in the same order), and when it returns
  true every row with that identifier carries the flag, is still found by identifier and
  is no longer returned by \<open>getTask\<close> or \<open>getAllTasks\<close>.
\<close>

theorem soft_deleted_hidden_but_kept:
  "(distinct (map r_id (tasks db)) \<and> row \<in> set (tasks db) \<and> r_is_deleted row = 1 \<longrightarrow>
      getTask db (r_id row) = None
      \<and> r_id row \<notin> t_id ` set (getAllTasks db)
      \<and> select_task_by_id db (r_id row) = Some row)
   \<and> map r_id (tasks (snd (deleteTask db i queue_id now))) = map r_id (tasks db)
   \<and> (fst (deleteTask db i queue_id now) \<longrightarrow>
        (\<forall>r \<in> set (tasks (snd (deleteTask db i queue_id now))). r_id r = i \<longrightarrow> r_is_deleted r = 1)
        \<and> select_task_by_id (snd (deleteTask db i queue_id now)) i \<noteq> None
        \<and> getTask (snd (deleteTask db i queue_id now)) i = None
        \<and> i \<notin> t_id ` set (getAllTasks (snd (deleteTask db i queue_id now))))"
proof (intro conjI impI)
  assume a: "distinct (map r_id (tasks db)) \<and> row \<in> set (tasks db) \<and> r_is_deleted row = 1"
  then have f: "find (\<lambda>r. r_id r = r_id row) (tasks db) = Some row"
    by (simp add: find_distinct_key)
  show "select_task_by_id db (r_id row) = Some row"
    using f by (simp add: select_task_by_id_def)
  show "getTask db (r_id row) = None"
    using f a by (simp add: getTask_def select_task_by_id_def)
  show "r_id row \<notin> t_id ` set (getAllTasks db)"
  proof
    assume "r_id row \<in> t_id ` set (getAllTasks db)"
    then obtain r where r: "r \<in> set (tasks db)" "r_is_deleted r = 0" "r_id r = r_id row"
      by (auto simp: getAllTasks_def row_to_task_def)
    with a have "r = row" by (meson distinct_map inj_onD)
    with r a show False by simp
  qed
next
  show "map r_id (tasks (snd (deleteTask db i queue_id now))) = map r_id (tasks db)"
    by (rule tasks_deleteTask_ids)
next
  assume ok: "fst (deleteTask db i queue_id now)"
  then obtain e where e: "select_live_task_by_id db i = Some e"
    by (auto simp: deleteTask_def split: option.splits)
  then have mem: "e \<in> set (tasks db)" "r_id e = i"
    by (auto simp: select_live_task_by_id_def find_Some_iff)
  let ?db' = "snd (deleteTask db i queue_id now)"
  have t: "tasks ?db' = map (\<lambda>r. if r_id r = i then r\<lparr>r_is_deleted := 1, r_updated_at := now,
                               r_sync_status := ''pending''\<rparr> else r) (tasks db)"
    using e by (simp add: deleteTask_def update_tasks_where_id_def insert_queue_def Let_def)
  show all: "\<forall>r \<in> set (tasks ?db'). r_id r = i \<longrightarrow> r_is_deleted r = 1"
    unfolding t by (rule map_if_holds) simp
  have "i \<in> set (map r_id (tasks db))" using mem by force
  then have "i \<in> set (map r_id (tasks ?db'))" by (simp only: tasks_deleteTask_ids)
  then have "\<exists>r. r \<in> set (tasks ?db') \<and> r_id r = i" by (auto simp: image_iff)
  then show some: "select_task_by_id ?db' i \<noteq> None"
    by (simp add: select_task_by_id_def find_None_iff)
  show "getTask ?db' i = None"
  proof (cases "select_task_by_id ?db' i")
    case None
    then show ?thesis by (simp add: getTask_def)
  next
    case (Some r)
    then have "r \<in> set (tasks ?db') \<and> r_id r = i"
      unfolding select_task_by_id_def by (rule find_SomeD)
    with all have "r_is_deleted r = 1" by blast
    with Some show ?thesis by (simp add: getTask_def)
  qed
  show "i \<notin> t_id ` set (getAllTasks ?db')"
  proof
    assume "i \<in> t_id ` set (getAllTasks ?db')"
    then obtain r where "r \<in> set (tasks ?db')" "r_is_deleted r = 0" "r_id r = i"
      by (auto simp: getAllTasks_def row_to_task_def)
    with all show False by force
  qed
qed

theorem soft_deleted_hidden_but_kept_witness:
  "distinct (map r_id [example_row ''a'' 1 ''synced'' 1, example_row ''b'' 0 ''synced'' 1])
   \<and> r_is_deleted (example_row ''a'' 1 ''synced'' 1) = 1
   \<and> getTask \<lparr>tasks = [example_row ''a'' 1 ''synced'' 1, example_row ''b'' 0 ''synced'' 1],
               sync_queue = []\<rparr> ''a'' = None
   \<and> select_task_by_id \<lparr>tasks = [example_row ''a'' 1 ''synced'' 1, example_row ''b'' 0 ''synced'' 1],
               sync_queue = []\<rparr> ''a'' = Some (example_row ''a'' 1 ''synced'' 1)
   \<and> map t_id (getAllTasks \<lparr>tasks = [example_row ''a'' 1 ''synced'' 1, example_row ''b'' 0 ''synced'' 1],
               sync_queue = []\<rparr>) = [''b'']
   \<and> deleteTask \<lparr>tasks = [example_row ''a'' 1 ''synced'' 1, example_row ''b'' 0 ''synced'' 1],
               sync_queue = []\<rparr> ''b'' ''q'' 9
     = (True, \<lparr>tasks = [example_row ''a'' 1 ''synced'' 1, example_row ''b'' 1 ''pending'' 9],
               sync_queue = [example_item ''q'' ''b'' ''delete'' 9 0]\<rparr>)
   \<and> getTask \<lparr>tasks = [example_row ''a'' 1 ''synced'' 1, example_row ''b'' 1 ''pending'' 9],
               sync_queue = [example_item ''q'' ''b'' ''delete'' 9 0]\<rparr> ''b'' = None"
  using soft_deleted_hidden_but_kept
    [of "\<lparr>tasks = [example_row ''a'' 1 ''synced'' 1, example_row ''b'' 0 ''synced'' 1],
           sync_queue = []\<rparr>" "example_row ''a'' 1 ''synced'' 1" "''b''" "''q''" 9]
  by (simp add: example_row_def example_item_def getTask_def getAllTasks_def deleteTask_def
      select_task_by_id_def select_live_task_by_id_def update_tasks_where_id_def
      insert_queue_def row_to_task_def)

section \<open>The batcher\<close>

lemma js_slice_chunk:
  assumes "0 \<le> i" "i < int (length xs)" "0 < n"
  shows "js_slice xs i (i + n) = take (nat n) (drop (nat i) xs)"
proof -
  have "take (nat (min (i + n) (int (length xs)) - i)) (drop (nat i) xs) = take (nat n) (drop (nat i) xs)"
  proof (cases "i + n \<le> int (length xs)")
    case True
    then have "min (i + n) (int (length xs)) - i = n" by simp
    then show ?thesis by simp
  next
    case False
    then have "nat (min (i + n) (int (length xs)) - i) = length (drop (nat i) xs)"
      using assms by (simp add: min_def nat_diff_distrib)
    moreover have "length (drop (nat i) xs) \<le> nat n" using False assms by simp
    ultimately show ?thesis by simp
  qed
  then show ?thesis using assms by (simp add: js_slice_def Let_def min_def)
qed

text \<open>
  With a positive step the loop returns, from any index and any batches pushed so far:
  it appends the chunks of the rest of the array.
\<close>

lemma batch_loop_chunks:
  assumes "0 < n" "0 \<le> i"
  shows "\<exists>bs. batch_loop xs n i acc = Some (acc @ bs)
            \<and> concat bs = drop (nat i) xs
            \<and> (\<forall>b \<in> set bs. b \<noteq> [] \<and> int (length b) \<le> n)
            \<and> (\<forall>j. Suc j < length bs \<longrightarrow> int (length (bs ! j)) = n)"
  using assms(2)
proof (induction "length xs - nat i" arbitrary: i acc rule: less_induct)
  case less
  show ?case
  proof (cases "i < int (length xs)")
    case False
    then have "batch_loop xs n i acc = Some (acc @ [])"
      by (subst batch_loop.simps) simp
    moreover have "drop (nat i) xs = []" using False less.prems by simp
    ultimately show ?thesis by (intro exI [of _ "[]"]) simp
  next
    case True
    let ?s = "take (nat n) (drop (nat i) xs)"
    have step: "batch_loop xs n i acc = batch_loop xs n (i + n) (acc @ [?s])"
      using True less.prems assms(1) by (subst batch_loop.simps) (simp add: js_slice_chunk)
    have "length xs - nat (i + n) < length xs - nat i"
      using True less.prems assms(1) by linarith
    moreover have "0 \<le> i + n" using less.prems assms(1) by simp
    ultimately obtain bs where bs:
      "batch_loop xs n (i + n) (acc @ [?s]) = Some ((acc @ [?s]) @ bs)"
      "concat bs = drop (nat (i + n)) xs"
      "\<forall>b \<in> set bs. b \<noteq> [] \<and> int (length b) \<le> n"
      "\<forall>j. Suc j < length bs \<longrightarrow> int (length (bs ! j)) = n"
      using less.hyps [of "i + n" "acc @ [?s]"] by blast
    have s_ne: "?s \<noteq> []" using True less.prems assms(1) by simp
    have s_le: "int (length ?s) \<le> n" using assms(1) by simp
    have full: "int (length ?s) = n" if "bs \<noteq> []"
    proof -
      have "i + n < int (length xs)"
      proof (rule ccontr)
        assume "\<not> i + n < int (length xs)"
        then have "batch_loop xs n (i + n) (acc @ [?s]) = Some (acc @ [?s])"
          by (subst batch_loop.simps) simp
        with bs(1) that show False by simp
      qed
      then show ?thesis using less.prems assms(1) by simp
    qed
    have cat: "concat (?s # bs) = drop (nat i) xs"
    proof -
      have "nat (i + n) = nat n + nat i" using less.prems assms(1) by (simp add: nat_add_distrib)
      then have "concat bs = drop (nat n) (drop (nat i) xs)" using bs(2) by simp
      moreover have "?s @ drop (nat n) (drop (nat i) xs) = drop (nat i) xs"
        by (rule append_take_drop_id)
      ultimately show ?thesis by (simp only: concat.simps)
    qed
    have last: "\<forall>j. Suc j < length (?s # bs) \<longrightarrow> int (length ((?s # bs) ! j)) = n"
    proof (intro allI impI)
      fix j assume j: "Suc j < length (?s # bs)"
      show "int (length ((?s # bs) ! j)) = n"
      proof (cases j)
        case 0
        with j have "bs \<noteq> []" by auto
        with full 0 show ?thesis by simp
      next
        case (Suc k)
        with j bs(4) show ?thesis by simp
      qed
    qed
    have "batch_loop xs n i acc = Some (acc @ (?s # bs))" using step bs(1) by simp
    moreover have "\<forall>b \<in> set (?s # bs). b \<noteq> [] \<and> int (length b) \<le> n"
      using bs(3) s_ne s_le by simp
    ultimately show ?thesis using cat last by blast
  qed
qed

text \<open>
  C6. For every sequence of queue items and every positive \<open>batchSize\<close>, the batching
  loop of \<open>sync\<close> returns, and its batches are contiguous groups in input order: their
  concatenation is the input sequence, every batch is non-empty and has at most
  \<open>batchSize\<close> items, and every batch but the last has exactly \<open>batchSize\<close> items.
\<close>

theorem batcher_partitions:
  assumes "0 < batchSize"
  shows "\<exists>batches. batch_loop queueItems batchSize 0 [] = Some batches
            \<and> concat batches = queueItems
            \<and> (\<forall>b \<in> set batches. b \<noteq> [] \<and> int (length b) \<le> batchSize)
            \<and> (\<forall>j. Suc j < length batches \<longrightarrow> int (length (batches ! j)) = batchSize)"
  using batch_loop_chunks [OF assms, of 0 queueItems "[]"] by simp

theorem batcher_partitions_witness:
  "(0::int) < 2 \<and> batch_loop [1, 2, 3, 4, 5 :: nat] 2 0 [] = Some [[1, 2], [3, 4], [5]]"
  using batcher_partitions [of 2 "[1, 2, 3, 4, 5 :: nat]"]
  by (simp add: batch_loop.simps js_slice_def)

text \<open>
  The bound on \<open>batchSize\<close> is needed: with a step of zero or less the index never
  reaches the length of a non-empty array, and the loop does not return.
\<close>

lemma batch_loop_diverges_aux:
  assumes "batch_loop queueItems batchSize i batches = Some y"
  shows "\<not> (batchSize \<le> 0 \<and> i < int (length queueItems))"
proof (rule batch_loop.raw_induct
    [where P = "\<lambda>q b i bs y. \<not> (b \<le> 0 \<and> i < int (length q))", OF _ assms])
  fix f :: "'a list \<Rightarrow> int \<Rightarrow> int \<Rightarrow> 'a list list \<Rightarrow> 'a list list option"
    and q b i bs y
  assume IH: "\<And>q' b' i' bs' y'. f q' b' i' bs' = Some y' \<Longrightarrow> \<not> (b' \<le> 0 \<and> i' < int (length q'))"
    and eq: "(if i < int (length q) then f q b (i + b) (bs @ [js_slice q i (i + b)]) else Some bs)
             = Some y"
  show "\<not> (b \<le> 0 \<and> i < int (length q))"
  proof
    assume a: "b \<le> 0 \<and> i < int (length q)"
    with eq have "f q b (i + b) (bs @ [js_slice q i (i + b)]) = Some y" by simp
    from IH [OF this] a show False by simp
  qed
qed

lemma batch_loop_diverges:
  assumes "batchSize \<le> 0" "queueItems \<noteq> []"
  shows "batch_loop queueItems batchSize 0 [] = None"
proof (cases "batch_loop queueItems batchSize 0 []")
  case None
  then show ?thesis .
next
  case (Some y)
  from batch_loop_diverges_aux [OF Some] assms show ?thesis by simp
qed
section \<open>Reading the queue\<close>

text \<open>
  C7, as the claim states it, fails in its last clause. One batch holds the two queued
  operations \<open>q1\<close> and \<open>q2\<close> of record \<open>R\<close>; the response reports \<open>success\<close> for the
  first and \<open>error\<close> for the second. The \<open>success\<close> removes both queue rows: \<open>q2\<close> is
  removed although its success was never confirmed.
\<close>

theorem removal_counterexample:
  "sync
     \<lparr>tasks = [example_row ''R'' 0 ''pending'' 5],
      sync_queue = [example_item ''q1'' ''R'' ''create'' 10 0, example_item ''q2'' ''R'' ''update'' 20 0]\<rparr>
     (answers [outcome ''R'' StatusSuccess None,
               (outcome ''R'' StatusError None)\<lparr>p_error := Some ''Processing failed''\<rparr>]) 50 1000
   = Some (\<lparr>success = False, synced_items = 1, failed_items = 1,
            errors = [\<lparr>e_task_id = ''R'', e_operation = ''create'',
                       e_error = ''Processing failed'', e_timestamp = 1000\<rparr>]\<rparr>,
          \<lparr>tasks = [(example_row ''R'' 0 ''error'' 5)\<lparr>r_last_synced_at := Some 1000\<rparr>],
           sync_queue = []\<rparr>)"
  by (simp add: sync_eval)

text \<open>
  C7, amended. The queue read of \<open>sync\<close> (\<open>SELECT * FROM sync_queue ORDER BY created_at\<close>)
  returns every queue row (the same multiset), in non-decreasing \<open>created_at\<close> order, and
  rows with equal \<open>created_at\<close> in the order the table holds them (insertion sequence);
  it removes none of them. Removal is a separate operation, done when an outcome item
  reports \<open>success\<close> for the row's record: the queue rows of a record for which no
  response to a batch of the pass reports \<open>success\<close> are all still in the queue after
  the pass, in their order.
\<close>

theorem drain_ordered_stable:
  "sorted (map q_created_at (select_queue_ordered db))
   \<and> (\<forall>k. filter (\<lambda>q. q_created_at q = k) (select_queue_ordered db)
          = filter (\<lambda>q. q_created_at q = k) (sync_queue db))
   \<and> mset (select_queue_ordered db) = mset (sync_queue db)
   \<and> (batch_loop (select_queue_ordered db) batchSize 0 [] = Some batches \<longrightarrow>
       (\<forall>b \<in> set batches. \<forall>r. post \<lparr>req_items = b, req_client_timestamp = now\<rparr> = Inr r \<longrightarrow>
          (\<forall>p \<in> set (processed_items r). p_status p = StatusSuccess \<longrightarrow> p_client_id p \<noteq> t)) \<longrightarrow>
       sync db post batchSize now = Some (res, db') \<longrightarrow>
       map q_id (filter (\<lambda>q. q_task_id q = t) (sync_queue db'))
         = map q_id (filter (\<lambda>q. q_task_id q = t) (sync_queue db)))"
proof (intro conjI impI)
  assume bs: "batch_loop (select_queue_ordered db) batchSize 0 [] = Some batches"
    and no: "\<forall>b \<in> set batches. \<forall>r. post \<lparr>req_items = b, req_client_timestamp = now\<rparr> = Inr r \<longrightarrow>
          (\<forall>p \<in> set (processed_items r). p_status p = StatusSuccess \<longrightarrow> p_client_id p \<noteq> t)"
    and s: "sync db post batchSize now = Some (res, db')"
  from s bs have
    "db' = ps_db (foldl (process_one_batch post now)
               \<lparr>ps_db = db, syncedItems = 0, failedItems = 0, ps_errors = []\<rparr> batches)"
    by (auto simp: sync_def Let_def)
  then show "map q_id (filter (\<lambda>q. q_task_id q = t) (sync_queue db'))
         = map q_id (filter (\<lambda>q. q_task_id q = t) (sync_queue db))"
    using record_rows_foldl_process_one_batch
      [where post = post and batches = batches and now = now and t = t, OF no]
    by simp
qed (simp_all add: select_queue_ordered_def sort_key_stable)

theorem drain_ordered_stable_witness:
  "select_queue_ordered
     \<lparr>tasks = [example_row ''R'' 0 ''pending'' 5, example_row ''S'' 0 ''pending'' 6],
      sync_queue = [example_item ''qa'' ''R'' ''update'' 20 0, example_item ''qb'' ''S'' ''create'' 10 0,
                    example_item ''qc'' ''S'' ''update'' 20 0]\<rparr>
   = [example_item ''qb'' ''S'' ''create'' 10 0, example_item ''qa'' ''R'' ''update'' 20 0,
      example_item ''qc'' ''S'' ''update'' 20 0]
   \<and> sync
       \<lparr>tasks = [example_row ''R'' 0 ''pending'' 5, example_row ''S'' 0 ''pending'' 6],
        sync_queue = [example_item ''qa'' ''R'' ''update'' 20 0, example_item ''qb'' ''S'' ''create'' 10 0,
                      example_item ''qc'' ''S'' ''update'' 20 0]\<rparr>
       (answers [outcome ''S'' StatusSuccess None]) 50 1000
     = Some (\<lparr>success = True, synced_items = 1, failed_items = 0, errors = []\<rparr>,
            \<lparr>tasks = [example_row ''R'' 0 ''pending'' 5,
                       (example_row ''S'' 0 ''synced'' 6)\<lparr>r_last_synced_at := Some 1000\<rparr>],
             sync_queue = [example_item ''qa'' ''R'' ''update'' 20 0]\<rparr>)
   \<and> map q_id (filter (\<lambda>q. q_task_id q = ''R'') [example_item ''qa'' ''R'' ''update'' 20 0]) = [''qa'']"
  using drain_ordered_stable
    [where db = "\<lparr>tasks = [example_row ''R'' 0 ''pending'' 5, example_row ''S'' 0 ''pending'' 6],
                  sync_queue = [example_item ''qa'' ''R'' ''update'' 20 0,
                                example_item ''qb'' ''S'' ''create'' 10 0,
                                example_item ''qc'' ''S'' ''update'' 20 0]\<rparr>"
       and post = "answers [outcome ''S'' StatusSuccess None]" and batchSize = 50 and now = 1000
       and t = "''R''"
       and batches = "[[example_item ''qb'' ''S'' ''create'' 10 0, example_item ''qa'' ''R'' ''update'' 20 0,
                        example_item ''qc'' ''S'' ''update'' 20 0]]"
       and res = "\<lparr>success = True, synced_items = 1, failed_items = 0, errors = []\<rparr>"
       and db' = "\<lparr>tasks = [example_row ''R'' 0 ''pending'' 5,
                              (example_row ''S'' 0 ''synced'' 6)\<lparr>r_last_synced_at := Some 1000\<rparr>],
                   sync_queue = [example_item ''qa'' ''R'' ''update'' 20 0]\<rparr>"]
  by (simp add: sync_eval)

section \<open>A pass returns its summary\<close>

lemma sum_batch_failed_all:
  assumes "\<forall>req. \<exists>msg. post req = Inl msg"
  shows "sum_list (map (batch_failed post now) batches) = length (concat batches)
       \<and> sum_list (map (batch_synced post now) batches) = 0"
proof (induction batches)
  case Nil
  then show ?case by simp
next
  case (Cons b bs)
  obtain msg where "post \<lparr>req_items = b, req_client_timestamp = now\<rparr> = Inl msg"
    using assms by blast
  then have "batch_failed post now b = length b" "batch_synced post now b = 0"
    by (simp_all add: batch_failed_def batch_synced_def)
  with Cons show ?case by simp
qed

lemma length_select_queue_ordered [simp]:
  "length (select_queue_ordered db) = length (sync_queue db)"
  by (simp add: select_queue_ordered_def)

text \<open>
  C8. With a positive batch size, \<open>sync\<close> returns a summary whatever the transport does:
  the batching loop ends, every batch is handled in turn, and the counters account for
  every batch, also after a batch whose request threw. \<open>synced_items\<close> is the number of
  \<open>success\<close> items over all responses, \<open>failed_items\<close> the number of other items plus the
  sizes of the batches whose request threw, \<open>errors\<close> has one entry per failed item and
  \<open>success\<close> holds exactly when nothing failed. When the transport throws on every
  request, the pass still returns: nothing is synced and every queue item is counted as
  failed. A batch whose response makes \<open>processBatch\<close> throw is handled like a batch
  whose request threw. (The statements of the store are taken to succeed.)
\<close>

theorem sync_pass_completes:
  assumes "0 < batchSize"
  shows "\<exists>res db' batches.
           sync db post batchSize now = Some (res, db')
         \<and> batch_loop (select_queue_ordered db) batchSize 0 [] = Some batches
         \<and> concat batches = select_queue_ordered db
         \<and> synced_items res = sum_list (map (batch_synced post now) batches)
         \<and> failed_items res = sum_list (map (batch_failed post now) batches)
         \<and> length (errors res) = failed_items res
         \<and> success res = (failed_items res = 0)
         \<and> ((\<forall>req. \<exists>msg. post req = Inl msg) \<longrightarrow>
              synced_items res = 0 \<and> failed_items res = length (sync_queue db))"
proof -
  obtain batches where b:
    "batch_loop (select_queue_ordered db) batchSize 0 [] = Some batches"
    "concat batches = select_queue_ordered db"
    using batch_loop_chunks [OF assms, of 0 "select_queue_ordered db" "[]"] by auto
  let ?st = "foldl (process_one_batch post now)
               \<lparr>ps_db = db, syncedItems = 0, failedItems = 0, ps_errors = []\<rparr> batches"
  have s: "sync db post batchSize now = Some (summary ?st, ps_db ?st)"
    using b(1) by (simp add: sync_def Let_def)
  have c: "syncedItems ?st = sum_list (map (batch_synced post now) batches)"
    "failedItems ?st = sum_list (map (batch_failed post now) batches)"
    "length (ps_errors ?st) = sum_list (map (batch_failed post now) batches)"
    using foldl_process_one_batch_counts
      [of post now "\<lparr>ps_db = db, syncedItems = 0, failedItems = 0, ps_errors = []\<rparr>" batches]
    by simp_all
  have d: "syncedItems ?st = 0 \<and> failedItems ?st = length (sync_queue db)"
    if "\<forall>req. \<exists>msg. post req = Inl msg"
    using sum_batch_failed_all [OF that, of now batches] c b(2)
    by (simp del: length_concat)
  show ?thesis
    using s b c d by (intro exI [of _ "summary ?st"] exI [of _ "ps_db ?st"] exI [of _ batches])
      (simp add: summary_def)
qed

theorem sync_pass_completes_witness:
  "(0::int) < 1
   \<and> sync
       \<lparr>tasks = [example_row ''R'' 0 ''pending'' 5, example_row ''S'' 0 ''pending'' 6],
        sync_queue = [example_item ''q1'' ''R'' ''update'' 10 0, example_item ''q2'' ''S'' ''create'' 20 0]\<rparr>
       (fails_on [''q1''] [outcome ''S'' StatusSuccess None]) 1 1000
     = Some (\<lparr>success = False, synced_items = 1, failed_items = 1,
              errors = [\<lparr>e_task_id = ''R'', e_operation = ''update'', e_error = ''Network Error'',
                         e_timestamp = 1000\<rparr>]\<rparr>,
            \<lparr>tasks = [example_row ''R'' 0 ''pending'' 5,
                       (example_row ''S'' 0 ''synced'' 6)\<lparr>r_last_synced_at := Some 1000\<rparr>],
             sync_queue = [(example_item ''q1'' ''R'' ''update'' 10 1)
                             \<lparr>q_error_message := Some ''Network Error''\<rparr>]\<rparr>)"
  using sync_pass_completes
    [where batchSize = 1
       and db = "\<lparr>tasks = [example_row ''R'' 0 ''pending'' 5, example_row ''S'' 0 ''pending'' 6],
                  sync_queue = [example_item ''q1'' ''R'' ''update'' 10 0,
                                example_item ''q2'' ''S'' ''create'' 20 0]\<rparr>"
       and post = "fails_on [''q1''] [outcome ''S'' StatusSuccess None]" and now = 1000]
  by (simp add: sync_eval batch_synced_def batch_failed_def type_error_of_def)

text \<open>
  With a batch size of zero or less and a non-empty queue, \<open>sync\<close> does not return.
\<close>

lemma sync_diverges:
  assumes "batchSize \<le> 0" "sync_queue db \<noteq> []"
  shows "sync db post batchSize now = None"
proof -
  have "select_queue_ordered db \<noteq> []"
    using assms(2) length_sort [of q_created_at "sync_queue db"]
    by (auto simp: select_queue_ordered_def simp del: length_sort)
  then have "batch_loop (select_queue_ordered db) batchSize 0 [] = None"
    by (rule batch_loop_diverges [OF assms(1)])
  then show ?thesis by (simp add: sync_def Let_def)
qed
section \<open>The retry policy\<close>

text \<open>
  C1. Four passes in a row over one queued update of record \<open>R\<close>, the transport
  throwing every time. The attempt count goes 1, 2, 3, 4. At the third failure
  \<open>handleSyncError\<close> writes \<open>'error'\<close> to the record's \<open>sync_status\<close>, the value a first
  per-item error gets too, not a terminal \<open>'failed'\<close>; the item is left in place, and the
  fourth pass reads it and sends it again.
\<close>

theorem retry_ceiling_not_terminal:
  "map_option snd (sync
     \<lparr>tasks = [example_row ''R'' 0 ''pending'' 5],
      sync_queue = [example_item ''q1'' ''R'' ''update'' 10 0]\<rparr> always_fails 50 1000)
   = Some \<lparr>tasks = [example_row ''R'' 0 ''pending'' 5],
           sync_queue = [(example_item ''q1'' ''R'' ''update'' 10 1)
                           \<lparr>q_error_message := Some ''Network Error''\<rparr>]\<rparr>
   \<and> map_option snd (sync
     \<lparr>tasks = [example_row ''R'' 0 ''pending'' 5],
      sync_queue = [(example_item ''q1'' ''R'' ''update'' 10 1)
                      \<lparr>q_error_message := Some ''Network Error''\<rparr>]\<rparr> always_fails 50 1000)
   = Some \<lparr>tasks = [example_row ''R'' 0 ''pending'' 5],
           sync_queue = [(example_item ''q1'' ''R'' ''update'' 10 2)
                           \<lparr>q_error_message := Some ''Network Error''\<rparr>]\<rparr>
   \<and> map_option snd (sync
     \<lparr>tasks = [example_row ''R'' 0 ''pending'' 5],
      sync_queue = [(example_item ''q1'' ''R'' ''update'' 10 2)
                      \<lparr>q_error_message := Some ''Network Error''\<rparr>]\<rparr> always_fails 50 1000)
   = Some \<lparr>tasks = [example_row ''R'' 0 ''error'' 5],
           sync_queue = [(example_item ''q1'' ''R'' ''update'' 10 3)
                           \<lparr>q_error_message := Some ''Network Error''\<rparr>]\<rparr>
   \<and> r_sync_status (example_row ''R'' 0 ''error'' 5) \<noteq> ''failed''
   \<and> sync
     \<lparr>tasks = [example_row ''R'' 0 ''error'' 5],
      sync_queue = [(example_item ''q1'' ''R'' ''update'' 10 3)
                      \<lparr>q_error_message := Some ''Network Error''\<rparr>]\<rparr> always_fails 50 1000
   = Some (\<lparr>success = False, synced_items = 0, failed_items = 1,
            errors = [\<lparr>e_task_id = ''R'', e_operation = ''update'', e_error = ''Network Error'',
                       e_timestamp = 1000\<rparr>]\<rparr>,
          \<lparr>tasks = [example_row ''R'' 0 ''error'' 5],
           sync_queue = [(example_item ''q1'' ''R'' ''update'' 10 4)
                           \<lparr>q_error_message := Some ''Network Error''\<rparr>]\<rparr>)"
  by (simp add: sync_eval)

text \<open>
  C2, as the claim states it, fails. After a pass whose only batch fails at the
  transport, the item has attempt count 1 and the error message, but the record's
  \<open>sync_status\<close> is still \<open>'pending'\<close>. After a pass whose response reports \<open>error\<close> for
  the record, the record's \<open>sync_status\<close> is \<open>'error'\<close>, but the item still has attempt
  count 0 and no error message. And with batch size 1 and two queued operations of
  record \<open>T\<close>, the batch of the second fails at the transport below the ceiling, yet the
  second is not in the queue afterwards: the \<open>success\<close> of the first has removed it.
\<close>

theorem failure_below_ceiling_counterexample:
  "sync
     \<lparr>tasks = [example_row ''R'' 0 ''pending'' 5],
      sync_queue = [example_item ''q1'' ''R'' ''update'' 10 0]\<rparr>
     always_fails 50 1000
   = Some (\<lparr>success = False, synced_items = 0, failed_items = 1,
            errors = [\<lparr>e_task_id = ''R'', e_operation = ''update'', e_error = ''Network Error'',
                       e_timestamp = 1000\<rparr>]\<rparr>,
          \<lparr>tasks = [example_row ''R'' 0 ''pending'' 5],
           sync_queue = [(example_item ''q1'' ''R'' ''update'' 10 1)
                           \<lparr>q_error_message := Some ''Network Error''\<rparr>]\<rparr>)
   \<and> r_sync_status (example_row ''R'' 0 ''pending'' 5) \<noteq> ''error''
   \<and> sync
       \<lparr>tasks = [example_row ''R'' 0 ''pending'' 5],
        sync_queue = [example_item ''q1'' ''R'' ''update'' 10 0]\<rparr>
       (answers [(outcome ''R'' StatusError None)\<lparr>p_error := Some ''Processing failed''\<rparr>]) 50 1000
     = Some (\<lparr>success = False, synced_items = 0, failed_items = 1,
              errors = [\<lparr>e_task_id = ''R'', e_operation = ''update'',
                         e_error = ''Processing failed'', e_timestamp = 1000\<rparr>]\<rparr>,
            \<lparr>tasks = [(example_row ''R'' 0 ''error'' 5)\<lparr>r_last_synced_at := Some 1000\<rparr>],
             sync_queue = [example_item ''q1'' ''R'' ''update'' 10 0]\<rparr>)
   \<and> q_retry_count (example_item ''q1'' ''R'' ''update'' 10 0) \<noteq> 0 + 1
   \<and> sync
       \<lparr>tasks = [example_row ''T'' 0 ''pending'' 5],
        sync_queue = [example_item ''a1'' ''T'' ''create'' 10 0, example_item ''a2'' ''T'' ''delete'' 20 0]\<rparr>
       (fails_on [''a2''] [outcome ''T'' StatusSuccess None]) 1 1000
     = Some (\<lparr>success = False, synced_items = 1, failed_items = 1,
              errors = [\<lparr>e_task_id = ''T'', e_operation = ''delete'', e_error = ''Network Error'',
                         e_timestamp = 1000\<rparr>]\<rparr>,
            \<lparr>tasks = [(example_row ''T'' 0 ''synced'' 5)\<lparr>r_last_synced_at := Some 1000\<rparr>],
             sync_queue = []\<rparr>)"
  by (simp add: sync_eval)

text \<open>
  C2, amended. For a batch whose request fails at the transport, the pass counts every
  item of the batch as failed and removes no queue row. It writes to every queue row that
  has the identifier of an item of the batch the attempt count the pass read for that
  item plus one, and the error message (a row that an earlier \<open>success\<close> for the same
  record has removed is not written and not restored); the other queue rows are
  unchanged. In \<open>tasks\<close> it changes nothing but the \<open>sync_status\<close> of the records that have
  an item of the batch whose new count reaches 3, which it sets to \<open>'error'\<close>: while every
  new count is below 3, no record's sync state becomes \<open>'error'\<close>. When the pass handles
  an item that the authority reports as \<open>error\<close>, it counts one failed item, sets the
  originating record's \<open>sync_status\<close> to \<open>'error'\<close> and keeps every queue row and every
  task row in place.
\<close>

theorem failure_below_ceiling:
  "(post \<lparr>req_items = batch, req_client_timestamp = now\<rparr> = Inl msg \<longrightarrow>
      failedItems (process_one_batch post now st batch) = failedItems st + length batch
    \<and> syncedItems (process_one_batch post now st batch) = syncedItems st
    \<and> sync_queue (ps_db (process_one_batch post now st batch)) =
        map (retried batch msg) (sync_queue (ps_db st))
    \<and> map q_id (sync_queue (ps_db (process_one_batch post now st batch))) =
        map q_id (sync_queue (ps_db st))
    \<and> (distinct (map q_id batch) \<longrightarrow>
         (\<forall>item \<in> set batch. \<forall>q \<in> set (sync_queue (ps_db (process_one_batch post now st batch))).
            q_id q = q_id item \<longrightarrow>
            q_retry_count q = q_retry_count item + 1 \<and> q_error_message q = Some msg))
    \<and> filter (\<lambda>q. q_id q \<notin> q_id ` set batch) (sync_queue (ps_db (process_one_batch post now st batch))) =
        filter (\<lambda>q. q_id q \<notin> q_id ` set batch) (sync_queue (ps_db st))
    \<and> tasks (ps_db (process_one_batch post now st batch)) =
        map (\<lambda>r. if exhausted batch (r_id r) then r\<lparr>r_sync_status := ''error''\<rparr> else r)
          (tasks (ps_db st))
    \<and> ((\<forall>item \<in> set batch. q_retry_count item + 1 < 3) \<longrightarrow>
         tasks (ps_db (process_one_batch post now st batch)) = tasks (ps_db st)))
   \<and> (p_status p = StatusError \<longrightarrow>
      map q_id (sync_queue (ps_db (handle_processed batch now st p))) = map q_id (sync_queue (ps_db st))
    \<and> map r_id (tasks (ps_db (handle_processed batch now st p))) = map r_id (tasks (ps_db st))
    \<and> (\<forall>r \<in> set (tasks (ps_db (handle_processed batch now st p))).
          r_id r = p_client_id p \<longrightarrow> r_sync_status r = ''error'')
    \<and> failedItems (handle_processed batch now st p) = failedItems st + 1)"
proof (intro conjI impI)
  assume "p_status p = StatusError"
  then have db': "ps_db (handle_processed batch now st p) =
      updateSyncStatus (ps_db st) (p_client_id p) ''error'' None now"
    and f: "failedItems (handle_processed batch now st p) = failedItems st + 1"
    by (simp_all add: handle_processed_def)
  show "failedItems (handle_processed batch now st p) = failedItems st + 1" by (rule f)
  show "map q_id (sync_queue (ps_db (handle_processed batch now st p))) = map q_id (sync_queue (ps_db st))"
    by (simp add: db' sync_queue_updateSyncStatus)
  show "map r_id (tasks (ps_db (handle_processed batch now st p))) = map r_id (tasks (ps_db st))"
    unfolding db' tasks_updateSyncStatus by (rule map_if_key) (simp add: stamped_fields)
  show "\<forall>r \<in> set (tasks (ps_db (handle_processed batch now st p))).
          r_id r = p_client_id p \<longrightarrow> r_sync_status r = ''error''"
    unfolding db' tasks_updateSyncStatus by (rule map_if_holds) (simp add: stamped_fields)
next
  assume t: "post \<lparr>req_items = batch, req_client_timestamp = now\<rparr> = Inl msg"
  let ?st' = "process_one_batch post now st batch"
  note e = process_one_batch_transport
    [where post = post and batch = batch and now = now and msg = msg and st = st, OF t]
  show "failedItems ?st' = failedItems st + length batch"
    by (simp add: e foldl_handle_failed_counts)
  show "syncedItems ?st' = syncedItems st"
    by (simp add: e foldl_handle_failed_counts)
  show q: "sync_queue (ps_db ?st') = map (retried batch msg) (sync_queue (ps_db st))"
    by (simp add: e sync_queue_foldl_handle_failed)
  show "map q_id (sync_queue (ps_db ?st')) = map q_id (sync_queue (ps_db st))"
    by (simp add: q)
  show ts: "tasks (ps_db ?st') =
      map (\<lambda>r. if exhausted batch (r_id r) then r\<lparr>r_sync_status := ''error''\<rparr> else r)
        (tasks (ps_db st))"
    by (simp add: e tasks_foldl_handle_failed)
  show "filter (\<lambda>q. q_id q \<notin> q_id ` set batch) (sync_queue (ps_db ?st')) =
        filter (\<lambda>q. q_id q \<notin> q_id ` set batch) (sync_queue (ps_db st))"
  proof -
    have "retried batch msg q = q" if "q_id q \<notin> q_id ` set batch" for q
    proof -
      have "\<forall>item \<in> set batch. q_id item \<noteq> q_id q"
        using that by (metis imageI)
      then have "find (\<lambda>item. q_id item = q_id q) (rev batch) = None"
        by (simp add: find_None_iff)
      then show ?thesis by (simp add: retried_def)
    qed
    then have "filter (\<lambda>q. q_id q \<notin> q_id ` set batch) (map (retried batch msg) xs) =
               filter (\<lambda>q. q_id q \<notin> q_id ` set batch) xs" for xs
      by (induction xs) simp_all
    then show ?thesis by (simp add: q)
  qed
  {
    assume d: "distinct (map q_id batch)"
    show "\<forall>item \<in> set batch. \<forall>q \<in> set (sync_queue (ps_db ?st')).
            q_id q = q_id item \<longrightarrow>
            q_retry_count q = q_retry_count item + 1 \<and> q_error_message q = Some msg"
    proof (intro ballI impI)
      fix item q
      assume i: "item \<in> set batch" and m: "q \<in> set (sync_queue (ps_db ?st'))"
        and k: "q_id q = q_id item"
      from m obtain q0 where q0: "q = retried batch msg q0" unfolding q by auto
      then have "q_id q0 = q_id item" using k by simp
      moreover have "find (\<lambda>y. q_id y = q_id item) (rev batch) = Some item"
        using d i by (intro find_distinct_key) (simp_all add: rev_map [symmetric])
      ultimately show "q_retry_count q = q_retry_count item + 1 \<and> q_error_message q = Some msg"
        by (simp add: q0 retried_def)
    qed
  }
  {
    assume b: "\<forall>item \<in> set batch. q_retry_count item + 1 < 3"
    then have "\<not> exhausted batch i" for i by (auto simp: exhausted_def)
    then show "tasks (ps_db ?st') = tasks (ps_db st)" by (simp add: ts)
  }
qed

theorem failure_below_ceiling_witness:
  "always_fails \<lparr>req_items = [example_item ''q1'' ''R'' ''update'' 10 0, example_item ''q2'' ''S'' ''create'' 20 1],
                  req_client_timestamp = 1000\<rparr> = Inl ''Network Error''
   \<and> distinct (map q_id [example_item ''q1'' ''R'' ''update'' 10 0, example_item ''q2'' ''S'' ''create'' 20 1])
   \<and> ps_db (process_one_batch always_fails 1000
        \<lparr>ps_db = \<lparr>tasks = [example_row ''R'' 0 ''pending'' 5, example_row ''S'' 0 ''pending'' 6],
                   sync_queue = [example_item ''q1'' ''R'' ''update'' 10 0,
                                 example_item ''q2'' ''S'' ''create'' 20 1,
                                 example_item ''q3'' ''S'' ''update'' 30 0]\<rparr>,
         syncedItems = 0, failedItems = 0, ps_errors = []\<rparr>
        [example_item ''q1'' ''R'' ''update'' 10 0, example_item ''q2'' ''S'' ''create'' 20 1])
     = \<lparr>tasks = [example_row ''R'' 0 ''pending'' 5, example_row ''S'' 0 ''pending'' 6],
        sync_queue = [(example_item ''q1'' ''R'' ''update'' 10 1)
                        \<lparr>q_error_message := Some ''Network Error''\<rparr>,
                      (example_item ''q2'' ''S'' ''create'' 20 2)
                        \<lparr>q_error_message := Some ''Network Error''\<rparr>,
                      example_item ''q3'' ''S'' ''update'' 30 0]\<rparr>
   \<and> p_status (outcome ''R'' StatusError None) = StatusError
   \<and> ps_db (handle_processed [example_item ''q1'' ''R'' ''update'' 10 0] 1000
        \<lparr>ps_db = \<lparr>tasks = [example_row ''R'' 0 ''pending'' 5],
                   sync_queue = [example_item ''q1'' ''R'' ''update'' 10 0]\<rparr>,
         syncedItems = 0, failedItems = 0, ps_errors = []\<rparr>
        (outcome ''R'' StatusError None))
     = \<lparr>tasks = [(example_row ''R'' 0 ''error'' 5)\<lparr>r_last_synced_at := Some 1000\<rparr>],
        sync_queue = [example_item ''q1'' ''R'' ''update'' 10 0]\<rparr>"
  using failure_below_ceiling
    [where post = always_fails and msg = "''Network Error''" and now = 1000
       and batch = "[example_item ''q1'' ''R'' ''update'' 10 0, example_item ''q2'' ''S'' ''create'' 20 1]"
       and st = "\<lparr>ps_db = \<lparr>tasks = [example_row ''R'' 0 ''pending'' 5, example_row ''S'' 0 ''pending'' 6],
                             sync_queue = [example_item ''q1'' ''R'' ''update'' 10 0,
                                           example_item ''q2'' ''S'' ''create'' 20 1,
                                           example_item ''q3'' ''S'' ''update'' 30 0]\<rparr>,
                   syncedItems = 0, failedItems = 0, ps_errors = []\<rparr>"
       and p = "outcome ''R'' StatusError None"]
    failure_below_ceiling
    [where p = "outcome ''R'' StatusError None"
       and batch = "[example_item ''q1'' ''R'' ''update'' 10 0]" and now = 1000
       and st = "\<lparr>ps_db = \<lparr>tasks = [example_row ''R'' 0 ''pending'' 5],
                             sync_queue = [example_item ''q1'' ''R'' ''update'' 10 0]\<rparr>,
                   syncedItems = 0, failedItems = 0, ps_errors = []\<rparr>"
       and post = always_fails and msg = "''Network Error''"]
  by (simp add: sync_eval retried_def exhausted_def)

section \<open>A success outcome\<close>

text \<open>
  C5, as the claim states it, fails. With two queued operations for one record and batch
  size 1, the \<open>success\<close> outcome of the first batch removes both queue rows: the second
  operation is gone from the queue although its own batch failed at the transport. The
  outcome is the one the \<open>/batch\<close> route of the repository builds: its \<open>server_id\<close> is on
  the item, not in its resolved data, and the record's \<open>server_id\<close> is not written.
\<close>

theorem success_outcome_counterexample:
  "sync
     \<lparr>tasks = [example_row ''R'' 0 ''pending'' 5],
      sync_queue = [example_item ''q1'' ''R'' ''create'' 10 0, example_item ''q2'' ''R'' ''update'' 20 0]\<rparr>
     (fails_on [''q2''] [outcome ''R'' StatusSuccess (Some (example_resolved ''A'' (IsoText 1000)))])
     1 1000
   = Some (\<lparr>success = False, synced_items = 1, failed_items = 1,
            errors = [\<lparr>e_task_id = ''R'', e_operation = ''update'', e_error = ''Network Error'',
                       e_timestamp = 1000\<rparr>]\<rparr>,
          \<lparr>tasks = [(example_row ''R'' 0 ''synced'' 5)\<lparr>r_last_synced_at := Some 1000\<rparr>],
           sync_queue = []\<rparr>)
   \<and> p_server_id (outcome ''R'' StatusSuccess (Some (example_resolved ''A'' (IsoText 1000))))
     = Some ''srv1''
   \<and> r_server_id ((example_row ''R'' 0 ''synced'' 5)\<lparr>r_last_synced_at := Some 1000\<rparr>) = None"
  by (simp add: sync_eval)

text \<open>
  C5, amended. When the pass handles an outcome item with status \<open>success\<close>, it counts
  one synced item; every row of the originating record gets \<open>sync_status\<close> \<open>'synced'\<close>
  and \<open>last_synced_at\<close> the current instant; the rows of other records are unchanged and
  no task row is added or removed. Every queue row of that record is removed (the
  outcome names the record, not a queue item), and the queue rows of other records are
  left as they were, in their order. (Nothing is said of the remote identifier.)
\<close>

theorem success_outcome_effect:
  fixes st :: pass_state and p :: processed_item and batch :: "queue_row list" and now :: timestamp
  defines "db \<equiv> ps_db st"
    and "db' \<equiv> ps_db (handle_processed batch now st p)"
    and "i \<equiv> p_client_id p"
  assumes "p_status p = StatusSuccess"
  shows "map r_id (tasks db') = map r_id (tasks db)
       \<and> (\<forall>r \<in> set (tasks db'). r_id r = i \<longrightarrow>
            r_sync_status r = ''synced'' \<and> r_last_synced_at r = Some now)
       \<and> filter (\<lambda>r. r_id r \<noteq> i) (tasks db') = filter (\<lambda>r. r_id r \<noteq> i) (tasks db)
       \<and> sync_queue db' = filter (\<lambda>q. q_task_id q \<noteq> i) (sync_queue db)
       \<and> syncedItems (handle_processed batch now st p) = syncedItems st + 1
       \<and> failedItems (handle_processed batch now st p) = failedItems st"
proof -
  have e: "db' = updateSyncStatus db i ''synced'' (p_resolved_data p) now"
    using assms by (simp add: handle_processed_def)
  have t: "tasks db' =
      map (\<lambda>r. if r_id r = i then stamped ''synced'' (p_resolved_data p) now r else r) (tasks db)"
    by (simp add: e tasks_updateSyncStatus)
  have 1: "map r_id (tasks db') = map r_id (tasks db)"
    unfolding t by (rule map_if_key) (simp add: stamped_fields)
  have 2: "\<forall>r \<in> set (tasks db'). r_id r = i \<longrightarrow>
            r_sync_status r = ''synced'' \<and> r_last_synced_at r = Some now"
    unfolding t by (rule map_if_holds) (simp add: stamped_fields)
  have 4: "filter (\<lambda>r. r_id r \<noteq> i) (tasks db') = filter (\<lambda>r. r_id r \<noteq> i) (tasks db)"
    unfolding t by (rule filter_other_map_if) (simp add: stamped_fields)
  have 5: "sync_queue db' = filter (\<lambda>q. q_task_id q \<noteq> i) (sync_queue db)"
    by (simp add: e sync_queue_updateSyncStatus)
  have 6: "syncedItems (handle_processed batch now st p) = syncedItems st + 1"
    "failedItems (handle_processed batch now st p) = failedItems st"
    using assms(4) by (simp_all add: handle_processed_def)
  from 1 2 4 5 6 show ?thesis by blast
qed

theorem success_outcome_effect_witness:
  "p_status (outcome ''R'' StatusSuccess (Some (example_resolved ''A'' (IsoText 1000)))) = StatusSuccess
   \<and> ps_db (handle_processed [example_item ''q1'' ''R'' ''create'' 10 0] 1000
        \<lparr>ps_db = \<lparr>tasks = [example_row ''R'' 0 ''pending'' 5, example_row ''S'' 0 ''pending'' 6],
                   sync_queue = [example_item ''q1'' ''R'' ''create'' 10 0,
                                 example_item ''q2'' ''S'' ''create'' 20 0,
                                 example_item ''q3'' ''R'' ''update'' 30 0]\<rparr>,
         syncedItems = 0, failedItems = 0, ps_errors = []\<rparr>
        (outcome ''R'' StatusSuccess (Some (example_resolved ''A'' (IsoText 1000)))))
     = \<lparr>tasks = [(example_row ''R'' 0 ''synced'' 5)\<lparr>r_last_synced_at := Some 1000\<rparr>,
                  example_row ''S'' 0 ''pending'' 6],
        sync_queue = [example_item ''q2'' ''S'' ''create'' 20 0]\<rparr>"
  using success_outcome_effect
    [where p = "outcome ''R'' StatusSuccess (Some (example_resolved ''A'' (IsoText 1000)))"
       and batch = "[example_item ''q1'' ''R'' ''create'' 10 0]" and now = 1000
       and st = "\<lparr>ps_db = \<lparr>tasks = [example_row ''R'' 0 ''pending'' 5, example_row ''S'' 0 ''pending'' 6],
                             sync_queue = [example_item ''q1'' ''R'' ''create'' 10 0,
                                           example_item ''q2'' ''S'' ''create'' 20 0,
                                           example_item ''q3'' ''R'' ''update'' 30 0]\<rparr>,
                   syncedItems = 0, failedItems = 0, ps_errors = []\<rparr>"]
  by (simp add: sync_eval)

section \<open>A conflict outcome\<close>

text \<open>
  C3. A pass over one queued update of record \<open>R\<close> whose response reports \<open>conflict\<close>
  for \<open>R\<close> with resolved data. When the resolved data carries a \<open>Date\<close>, \<open>processBatch\<close>
  writes the authority's fields to the row, and the loop of \<open>sync\<close> then takes the item
  as failed: the summary has \<open>failed_items = 1\<close> and \<open>success = false\<close>, the record ends
  with \<open>sync_status\<close> \<open>'error'\<close>, and the queue row is still there. When the resolved
  data carries the date as JSON text, \<open>processBatch\<close> throws before it writes: the batch
  is counted failed, the row keeps its local fields and its state \<open>'pending'\<close>, and the
  queue row is still there with attempt count 1.
\<close>

theorem conflict_outcome_counted_failed:
  "sync
     \<lparr>tasks = [example_row ''R'' 0 ''pending'' 5],
      sync_queue = [example_item ''q1'' ''R'' ''update'' 10 0]\<rparr>
     (answers [outcome ''R'' StatusConflict (Some (example_resolved ''B'' (DateObject 100)))]) 50 1000
   = Some (\<lparr>success = False, synced_items = 0, failed_items = 1,
            errors = [\<lparr>e_task_id = ''R'', e_operation = ''update'', e_error = ''Unknown error'',
                       e_timestamp = 1000\<rparr>]\<rparr>,
          \<lparr>tasks = [\<lparr>r_id = ''R'', r_title = Some ''B'', r_description = None, r_completed = 1,
                      r_created_at = 1, r_updated_at = 100, r_is_deleted = 0,
                      r_sync_status = ''error'', r_server_id = Some ''srv1'',
                      r_last_synced_at = Some 1000\<rparr>],
           sync_queue = [example_item ''q1'' ''R'' ''update'' 10 0]\<rparr>)
   \<and> sync
     \<lparr>tasks = [example_row ''R'' 0 ''pending'' 5],
      sync_queue = [example_item ''q1'' ''R'' ''update'' 10 0]\<rparr>
     (answers [outcome ''R'' StatusConflict (Some (example_resolved ''B'' (IsoText 100)))]) 50 1000
   = Some (\<lparr>success = False, synced_items = 0, failed_items = 1,
            errors = [\<lparr>e_task_id = ''R'', e_operation = ''update'', e_error = not_a_function,
                       e_timestamp = 1000\<rparr>]\<rparr>,
          \<lparr>tasks = [example_row ''R'' 0 ''pending'' 5],
           sync_queue = [(example_item ''q1'' ''R'' ''update'' 10 1)
                           \<lparr>q_error_message := Some not_a_function\<rparr>]\<rparr>)"
  by (simp add: sync_eval)

text \<open>
  C4. No timestamp is compared on either path of a \<open>conflict\<close>. With a response as
  \<open>axios\<close> parses it (the date as JSON text), the authority's data is later (200) than
  the local row and the queued payload (100): \<open>processBatch\<close> throws before its UPDATE,
  the batch is counted failed and the row keeps the local fields, so the later side does
  not win. With a response that carries a \<open>Date\<close>, the authority's data is older (100)
  than the local row and the queued payload (200): \<open>processBatch\<close> overwrites the row
  with the authority's title, completion flag and modification instant, so the later
  side does not win either.
\<close>

theorem conflict_ignores_timestamps:
  "r_updated_at (example_row ''R'' 0 ''pending'' 100) < 200
   \<and> q_data (update_item ''q1'' (example_row ''R'' 0 ''pending'' 100))
     = UpdatePayload (example_row ''R'' 0 ''pending'' 100)
   \<and> sync
     \<lparr>tasks = [example_row ''R'' 0 ''pending'' 100],
      sync_queue = [update_item ''q1'' (example_row ''R'' 0 ''pending'' 100)]\<rparr>
     (answers [outcome ''R'' StatusConflict (Some (example_resolved ''B'' (IsoText 200)))]) 50 1000
   = Some (\<lparr>success = False, synced_items = 0, failed_items = 1,
            errors = [\<lparr>e_task_id = ''R'', e_operation = ''update'', e_error = not_a_function,
                       e_timestamp = 1000\<rparr>]\<rparr>,
          \<lparr>tasks = [example_row ''R'' 0 ''pending'' 100],
           sync_queue = [(update_item ''q1'' (example_row ''R'' 0 ''pending'' 100))
                           \<lparr>q_retry_count := 1, q_error_message := Some not_a_function\<rparr>]\<rparr>)
   \<and> (100::nat) < r_updated_at (example_row ''R'' 0 ''pending'' 200)
   \<and> q_data (update_item ''q1'' (example_row ''R'' 0 ''pending'' 200))
     = UpdatePayload (example_row ''R'' 0 ''pending'' 200)
   \<and> processBatch
       \<lparr>tasks = [example_row ''R'' 0 ''pending'' 200],
        sync_queue = [update_item ''q1'' (example_row ''R'' 0 ''pending'' 200)]\<rparr>
       (answers [outcome ''R'' StatusConflict (Some (example_resolved ''B'' (DateObject 100)))])
       [update_item ''q1'' (example_row ''R'' 0 ''pending'' 200)] 1000
     = (Inr \<lparr>processed_items =
               [outcome ''R'' StatusConflict (Some (example_resolved ''B'' (DateObject 100)))]\<rparr>,
        \<lparr>tasks = [\<lparr>r_id = ''R'', r_title = Some ''B'', r_description = None, r_completed = 1,
                    r_created_at = 1, r_updated_at = 100, r_is_deleted = 0,
                    r_sync_status = ''pending'', r_server_id = Some ''srv1'',
                    r_last_synced_at = None\<rparr>],
         sync_queue = [update_item ''q1'' (example_row ''R'' 0 ''pending'' 200)]\<rparr>)"
  by (simp add: sync_eval)

end
